theory Spec2Isabelle
  imports Main
begin

section \<open>Python primitives used by \<open>circuits/web/http.py\<close>\<close>

text \<open>
  The HTTP component works on Python 2 byte strings. A string is a \<open>char list\<close>; the
  few built-in operations the component calls (\<open>split\<close>, \<open>strip\<close>, \<open>lower\<close>,
  \<open>int\<close>, \<open>hex\<close>, \<open>%s\<close>, \<open>min\<close> on tuples) are written out here.
\<close>

abbreviation CR :: char where "CR \<equiv> CHR 0x0D"
abbreviation LF :: char where "LF \<equiv> CHR 0x0A"
abbreviation CRLF :: string where "CRLF \<equiv> [CR, LF]"

datatype error = ValueError | TypeError | AttributeError | IndexError

text \<open>\<open>s.split(c, n)\<close> for a one-character separator: at most \<open>n\<close> splits.\<close>

fun split_max :: "char \<Rightarrow> nat \<Rightarrow> string \<Rightarrow> string list" where
  "split_max c 0 s = [s]"
| "split_max c (Suc n) s =
     (if c \<in> set s
      then takeWhile (\<lambda>x. x \<noteq> c) s # split_max c n (tl (dropWhile (\<lambda>x. x \<noteq> c) s))
      else [s])"

text \<open>\<open>s.split(c)\<close>: no bound on the number of splits.\<close>

definition split_all :: "char \<Rightarrow> string \<Rightarrow> string list" where
  "split_all c s = split_max c (length s) s"

definition whitespace :: "char \<Rightarrow> bool" where
  "whitespace c = (c \<in> set [CHR '' '', CHR 0x09, LF, CHR 0x0B, CHR 0x0C, CR])"

definition strip :: "string \<Rightarrow> string" where
  "strip s = rev (dropWhile whitespace (rev (dropWhile whitespace s)))"

definition lower_char :: "char \<Rightarrow> char" where
  "lower_char c =
     (let n = (of_char c :: nat) in if 65 \<le> n \<and> n \<le> 90 then char_of (n + 32) else c)"

definition lower :: "string \<Rightarrow> string" where
  "lower s = map lower_char s"

definition digit_val :: "char \<Rightarrow> nat option" where
  "digit_val c =
     (let n = (of_char c :: nat) in if 48 \<le> n \<and> n \<le> 57 then Some (n - 48) else None)"

fun digits_val :: "nat \<Rightarrow> string \<Rightarrow> nat option" where
  "digits_val acc [] = Some acc"
| "digits_val acc (c # cs) =
     (case digit_val c of None \<Rightarrow> None | Some d \<Rightarrow> digits_val (10 * acc + d) cs)"

definition nat_of_digits :: "string \<Rightarrow> nat option" where
  "nat_of_digits s = (if s = [] then None else digits_val 0 s)"

text \<open>
  \<open>int(s)\<close>: surrounding whitespace is dropped, one sign is allowed, then at least one
  decimal digit; anything else raises \<open>ValueError\<close> (\<open>None\<close> here).
\<close>

definition py_int :: "string \<Rightarrow> int option" where
  "py_int s =
     (case strip s of
        [] \<Rightarrow> None
      | c # r \<Rightarrow>
          if c = CHR ''-'' then map_option (\<lambda>n. - int n) (nat_of_digits r)
          else if c = CHR ''+'' then map_option int (nat_of_digits r)
          else map_option int (nat_of_digits (c # r)))"

text \<open>\<open>tuple(map(int, xs))\<close>: the first element that is no integer raises.\<close>

fun map_int :: "string list \<Rightarrow> int list option" where
  "map_int [] = Some []"
| "map_int (x # xs) =
     (case py_int x of
        None \<Rightarrow> None
      | Some i \<Rightarrow> (case map_int xs of None \<Rightarrow> None | Some is \<Rightarrow> Some (i # is)))"

definition digit_char :: "nat \<Rightarrow> char" where
  "digit_char d = (if d < 10 then char_of (48 + d) else char_of (87 + d))"

text \<open>The digits of \<open>n\<close> in base \<open>b\<close>, most significant first (\<open>k\<close> bounds their number).\<close>

fun digits_in :: "nat \<Rightarrow> nat \<Rightarrow> nat \<Rightarrow> string" where
  "digits_in b 0 n = [digit_char (n mod b)]"
| "digits_in b (Suc k) n =
     (if n < b then [digit_char n] else digits_in b k (n div b) @ [digit_char (n mod b)])"

text \<open>\<open>str(n)\<close> and \<open>"%s" % n\<close> for a non-negative integer.\<close>

definition str_nat :: "nat \<Rightarrow> string" where
  "str_nat n = digits_in 10 n n"

definition str_int :: "int \<Rightarrow> string" where
  "str_int i = (if i < 0 then CHR ''-'' # str_nat (nat (- i)) else str_nat (nat i))"

text \<open>\<open>hex(n)[2:]\<close> for a non-negative machine integer: lower-case hexadecimal digits.\<close>

definition hex2 :: "nat \<Rightarrow> string" where
  "hex2 n = digits_in 16 n n"

text \<open>\<open>a < b\<close> on tuples of integers: lexicographic, a proper prefix is smaller.\<close>

fun tuple_less :: "int list \<Rightarrow> int list \<Rightarrow> bool" where
  "tuple_less [] [] = False"
| "tuple_less [] (y # ys) = True"
| "tuple_less (x # xs) [] = False"
| "tuple_less (x # xs) (y # ys) = (if x = y then tuple_less xs ys else x < y)"

text \<open>\<open>min(a, b)\<close>: the second argument only when it is strictly smaller.\<close>

definition tuple_min :: "int list \<Rightarrow> int list \<Rightarrow> int list" where
  "tuple_min a b = (if tuple_less b a then b else a)"

text \<open>\<open>"HTTP/%s.%s" % t\<close>: a tuple of any length but two raises \<open>TypeError\<close>.\<close>

definition format_protocol :: "int list \<Rightarrow> string option" where
  "format_protocol t =
     (case t of
        [a, b] \<Rightarrow> Some (''HTTP/'' @ str_int a @ ''.'' @ str_int b)
      | _ \<Rightarrow> None)"

section \<open>Data model\<close>

type_synonym sock = nat
type_synonym ref = nat

text \<open>
  \<open>StringIO\<close>: the bytes written so far and the position of the next read or write.
  \<open>write\<close> (here \<open>buf_write\<close>) overwrites from the position on and moves it, \<open>tell\<close> reads it,
  \<open>seek(0)\<close> resets it.
\<close>

record buffer =
  buf :: string
  pos :: nat

definition StringIO :: buffer where
  "StringIO = \<lparr>buf = [], pos = 0\<rparr>"

definition buf_write :: "buffer \<Rightarrow> string \<Rightarrow> buffer" where
  "buf_write b d =
     \<lparr>buf = take (pos b) (buf b) @ replicate (pos b - length (buf b)) (CHR 0x00) @ d
              @ drop (pos b + length d) (buf b),
      pos = pos b + length d\<rparr>"

definition tell :: "buffer \<Rightarrow> nat" where
  "tell b = pos b"

definition seek :: "buffer \<Rightarrow> nat \<Rightarrow> buffer" where
  "seek b n = b\<lparr>pos := n\<rparr>"

text \<open>
  An \<open>HTTPError\<close> event carries the request and the response it was built for (both by
  reference) and the status code.
\<close>

record httperror =
  e_request :: ref
  e_response :: ref
  e_status :: nat
  e_message :: "string option"

text \<open>
  The Python values that reach the component as a response body or as a handler's
  return value: \<open>None\<close>, a boolean, a string, an iterator (the elements it has yet to
  yield and the number of times \<open>close()\<close> was called on it), an \<open>HTTPError\<close>, a
  \<open>wrappers.Response\<close> (by reference), or any other object (with its truth value).
\<close>

datatype pyvalue =
    VNone
  | VBool bool
  | VStr string
  | VIter "string list" nat
  | VError httperror
  | VResponse ref
  | VOther bool

fun truthy :: "pyvalue \<Rightarrow> bool" where
  "truthy VNone = False"
| "truthy (VBool b) = b"
| "truthy (VStr s) = (s \<noteq> [])"
| "truthy (VIter xs k) = True"
| "truthy (VError e) = True"
| "truthy (VResponse r) = True"
| "truthy (VOther b) = b"

type_synonym headers = "(string \<times> string) list"

record request =
  q_sock :: sock
  q_method :: string
  q_scheme :: string
  q_path :: string
  q_protocol :: "int list"
  q_qs :: string
  q_server_protocol :: "int list"
  q_headers :: headers
  q_body :: buffer
  q_handled :: bool

record response =
  r_sock :: sock
  r_request :: "ref option"
  r_status :: string
  r_headers :: headers
  r_body :: pyvalue
  r_protocol :: string
  r_chunked :: bool
  r_stream :: bool
  r_close :: bool
  r_done :: bool

text \<open>
  The events the component pushes: \<open>Write\<close> and \<open>Close\<close> go to the server,
  \<open>Stream\<close> and \<open>Response\<close> come back to the component's own handlers \<open>stream\<close> and
  \<open>response\<close>, \<open>Request\<close> goes to the application (channel \<open>web\<close>), and a pushed
  \<open>HTTPError\<close> reaches the \<open>httperror\<close> handler.
\<close>

datatype event =
    Write sock string
  | Close sock
  | Stream ref "string option"
  | Response ref
  | Request ref ref
  | HTTPError httperror

text \<open>
  Requests and responses are objects shared between the table \<open>_clients\<close> and the
  events that carry them, so they live in a store and are named by reference;
  \<open>next_ref\<close> is the next unused reference.
\<close>

record state =
  clients :: "sock \<rightharpoonup> ref \<times> ref"
  requests :: "ref \<Rightarrow> request"
  responses :: "ref \<Rightarrow> response"
  next_ref :: ref

text \<open>
  A handler either returns, or an exception leaves it; in both cases the store is as the
  handler left it and the events pushed so far stay pushed.
\<close>

datatype result = Done state "event list" | Raised error state "event list"

text \<open>
  What the component takes from outside this file: the standard library's \<open>urlparse\<close>
  (scheme, location, path, params, query, fragment), the header-block parser, the
  status table, the serialisation of a response's status line and headers, the server's
  protocol version, and the handlers that \<open>send(error, "httperror", channel)\<close> reaches
  (their return value, the store they leave and the events they push).
\<close>

record env =
  urlparse :: "string \<Rightarrow> string \<times> string \<times> string \<times> string \<times> string \<times> string"
  parseHeaders :: "string \<Rightarrow> error + headers \<times> string"
  RESPONSES :: "nat \<Rightarrow> (string \<times> string) option"
  response_output :: "response \<Rightarrow> string list"
  server_protocol :: "int list"
  default_protocol :: string
  send_httperror :: "httperror \<Rightarrow> state \<Rightarrow> pyvalue \<times> state \<times> event list"


section \<open>Objects the component constructs\<close>

definition upd_request :: "ref \<Rightarrow> (request \<Rightarrow> request) \<Rightarrow> state \<Rightarrow> state" where
  "upd_request r f st = st\<lparr>requests := (requests st)(r := f (requests st r))\<rparr>"

definition upd_response :: "ref \<Rightarrow> (response \<Rightarrow> response) \<Rightarrow> state \<Rightarrow> state" where
  "upd_response r f st = st\<lparr>responses := (responses st)(r := f (responses st r))\<rparr>"

text \<open>
  Modelled from the spec: the header mapping (\<open>headers.Headers\<close>) is not under src/.
  The spec gives it "case-insensitive keys"; \<open>get(name, default)\<close> is the value of the
  first field of that name, or the default.
\<close>

fun headers_get :: "headers \<Rightarrow> string \<Rightarrow> string \<Rightarrow> string" where
  "headers_get [] name d = d"
| "headers_get ((k, v) # h) name d =
     (if lower k = lower name then v else headers_get h name d)"

text \<open>
  Modelled from the spec: \<open>wrappers.Request\<close> is not under src/. The spec's Request
  has the method, scheme, path, query string and protocol version it is constructed
  from, the server's own protocol version, a header mapping, "a body buffer that is
  append-only until complete", and "a \<open>handled\<close> flag, initially false". The new object
  gets the next unused reference.
\<close>

definition wrappers_Request ::
  "env \<Rightarrow> state \<Rightarrow> sock \<Rightarrow> string \<Rightarrow> string \<Rightarrow> string \<Rightarrow> int list \<Rightarrow> string \<Rightarrow> ref \<times> state" where
  "wrappers_Request env st sock method scheme path protocol qs =
     (let r = next_ref st in
      (r, st\<lparr>requests := (requests st)(r :=
               \<lparr>q_sock = sock, q_method = method, q_scheme = scheme, q_path = path,
                q_protocol = protocol, q_qs = qs, q_server_protocol = server_protocol env,
                q_headers = [], q_body = StringIO, q_handled = False\<rparr>),
             next_ref := Suc r\<rparr>))"

text \<open>
  Modelled from the spec: \<open>wrappers.Response\<close> is not under src/. The spec's Response
  has the "associated Request (nullable for protocol-level replies)", the connection
  identifier, a status line, a header mapping, a body, a protocol version string, and
  the four flags \<open>chunked\<close>, \<open>stream\<close>, \<open>close\<close> and \<open>done\<close> (\<open>done\<close> is
  "monotonic false\<rightarrow>true", so it starts false, as do the others).
\<close>

definition wrappers_Response :: "env \<Rightarrow> state \<Rightarrow> sock \<Rightarrow> ref option \<Rightarrow> ref \<times> state" where
  "wrappers_Response env st sock request =
     (let r = next_ref st in
      (r, st\<lparr>responses := (responses st)(r :=
               \<lparr>r_sock = sock, r_request = request, r_status = ''200 OK'', r_headers = [],
                r_body = VStr [], r_protocol = default_protocol env,
                r_chunked = False, r_stream = False, r_close = False, r_done = False\<rparr>),
             next_ref := Suc r\<rparr>))"

text \<open>\<open>RESPONSES.get(code, ("???", "???"))\<close>.\<close>

definition responses_get :: "env \<Rightarrow> nat \<Rightarrow> string \<times> string" where
  "responses_get env code =
     (case RESPONSES env code of None \<Rightarrow> (''???'', ''???'') | Some p \<Rightarrow> p)"

text \<open>
  Modelled from the spec: \<open>errors.HTTPError\<close> is not under src/. The spec's HTTPError
  is "a value ... carrying a Request, a Response pre-populated with a status code's
  standard body/headers, and optionally a human-readable message": constructing it
  writes the status line and the standard body into the response it is given, and
  touches nothing else.
\<close>

definition errors_HTTPError ::
  "env \<Rightarrow> state \<Rightarrow> ref \<Rightarrow> ref \<Rightarrow> nat \<Rightarrow> string option \<Rightarrow> httperror \<times> state" where
  "errors_HTTPError env st request response status message =
     (\<lparr>e_request = request, e_response = response, e_status = status, e_message = message\<rparr>,
      upd_response response
        (\<lambda>r. r\<lparr>r_status := str_nat status @ '' '' @ fst (responses_get env status),
               r_body := VStr (snd (responses_get env status))\<rparr>) st)"

section \<open>The handlers of the HTTP component\<close>

subsection \<open>\<open>simple\<close>\<close>

definition simple :: "env \<Rightarrow> state \<Rightarrow> sock \<Rightarrow> nat \<Rightarrow> string \<Rightarrow> result" where
  "simple env st sock code message0 =
     (let (short, long) = responses_get env code;
          message = (if message0 \<noteq> [] then message0 else short);
          (response, st1) = wrappers_Response env st sock None;
          st2 = upd_response response
                  (\<lambda>r. r\<lparr>r_body := VStr message,
                         r_status := str_nat code @ '' '' @ message\<rparr>) st1;
          st3 = (if take 3 (r_status (responses st2 response)) = ''413''
                    \<and> r_protocol (responses st2 response) = ''HTTP/1.1''
                 then upd_response response
                        (\<lambda>r. r\<lparr>r_close := True,
                               r_headers := r_headers r @ [(''Connection'', ''close'')]\<rparr>) st2
                 else st2)
      in Done st3 [Response response])"

subsection \<open>\<open>read\<close>\<close>

text \<open>
  Lines 182 to 194: persistent-connection support, the rewind of the body, and the
  \<open>Request\<close> event for the application.
\<close>

definition read_complete :: "state \<Rightarrow> ref \<Rightarrow> ref \<Rightarrow> result" where
  "read_complete st request response =
     (let conn = lower (headers_get (q_headers (requests st request)) ''Connection'' []);
          st1 = (if q_protocol (requests st request) = [1, 1]
                 then (if conn = ''close''
                       then upd_response response (\<lambda>r. r\<lparr>r_close := True\<rparr>) st else st)
                 else (if conn \<noteq> ''keep-alive''
                       then upd_response response (\<lambda>r. r\<lparr>r_close := True\<rparr>) st else st));
          st2 = upd_request request (\<lambda>q. q\<lparr>q_body := seek (q_body q) 0\<rparr>) st1
      in Done st2 [Request request response])"

text \<open>Lines 120 to 124: the connection has an entry, the data continues its body.\<close>

definition read_body :: "state \<Rightarrow> ref \<Rightarrow> ref \<Rightarrow> string \<Rightarrow> result" where
  "read_body st request response data =
     (let st1 = upd_request request (\<lambda>q. q\<lparr>q_body := buf_write (q_body q) data\<rparr>) st in
      case py_int (headers_get (q_headers (requests st1 request)) ''Content-Length'' ''0'') of
        None \<Rightarrow> Raised ValueError st1 []
      | Some contentLength \<Rightarrow>
          if \<not> int (tell (q_body (requests st1 request))) = contentLength
          then Done st1 []
          else read_complete st1 request response)"

text \<open>
  Lines 126 to 180: the connection has no entry, the data starts a request. The local
  \<open>path\<close> that lines 140 to 149 compute (params reattached, percent-decoded) is
  never stored or read again, so it has no counterpart here. \<open>read_headers\<close> is
  lines 171 to 180, \<open>request_line\<close> lines 126 to 131, \<open>read_new\<close> the whole branch.
\<close>

definition first :: "int list \<Rightarrow> int option" where
  "first t = (case t of [] \<Rightarrow> None | x # _ \<Rightarrow> Some x)"

definition read_headers ::
  "env \<Rightarrow> state \<Rightarrow> sock \<Rightarrow> ref \<Rightarrow> ref \<Rightarrow> string \<Rightarrow> result" where
  "read_headers env st sock request response data =
     (case parseHeaders env data of
        Inl e \<Rightarrow> Raised e st []
      | Inr (headers, body) \<Rightarrow>
          (let st1 = upd_request request
                       (\<lambda>q. q\<lparr>q_headers := headers, q_body := buf_write (q_body q) body\<rparr>) st
           in if headers_get headers ''Expect'' [] = ''100-continue''
              then simple env st1 sock 100 []
              else (case py_int (headers_get headers ''Content-Length'' ''0'') of
                      None \<Rightarrow> Raised ValueError st1 []
                    | Some contentLength \<Rightarrow>
                        if \<not> int (tell (q_body (requests st1 request))) = contentLength
                        then Done st1 []
                        else read_complete st1 request response)))"

text \<open>
  Lines 126 to 131: the request line is split off and parsed. A chunk with no line
  feed, a request line with fewer than three fields and a version that is not made of
  integers raise \<open>ValueError\<close> (the unpacking and \<open>int\<close>).
\<close>

definition request_line ::
  "env \<Rightarrow> string \<Rightarrow>
   error + string \<times> (string \<times> string \<times> string \<times> string \<times> string \<times> string) \<times> int list \<times> string" where
  "request_line env data =
     (case split_max LF 1 data of
        [requestline, data1] \<Rightarrow>
          (case split_max (CHR '' '') 2 (strip requestline) of
             [method, path, protocol] \<Rightarrow>
               (case map_int (split_all (CHR ''.'') (drop 5 protocol)) of
                  None \<Rightarrow> Inl ValueError
                | Some version \<Rightarrow> Inr (method, urlparse env path, version, data1))
           | _ \<Rightarrow> Inl ValueError)
      | _ \<Rightarrow> Inl ValueError)"

definition read_new :: "env \<Rightarrow> state \<Rightarrow> sock \<Rightarrow> string \<Rightarrow> result" where
  "read_new env st sock data =
     (case request_line env data of
        Inl e \<Rightarrow> Raised e st []
      | Inr (method, (scheme, location, path, params, qs, frag), protocol, data1) \<Rightarrow>
          (let (request, st1) = wrappers_Request env st sock method scheme path protocol qs;
               (response, st2) = wrappers_Response env st1 sock (Some request);
               st3 = st2\<lparr>clients := (clients st2)(sock \<mapsto> (request, response))\<rparr>
           in if frag \<noteq> [] then
                (let (error, st4) = errors_HTTPError env st3 request response 400 None
                 in Done st4 [HTTPError error])
              else
                (case (first (q_protocol (requests st3 request)),
                       first (q_server_protocol (requests st3 request))) of
                   (Some m1, Some m2) \<Rightarrow>
                     if \<not> m1 = m2 then
                       (let (error, st4) = errors_HTTPError env st3 request response 505 None
                        in Done st4 [HTTPError error])
                     else
                       (case format_protocol
                               (tuple_min (q_protocol (requests st3 request))
                                  (q_server_protocol (requests st3 request))) of
                          None \<Rightarrow> Raised TypeError st3 []
                        | Some p \<Rightarrow>
                            read_headers env
                              (upd_response response (\<lambda>r. r\<lparr>r_protocol := p\<rparr>) st3)
                              sock request response data1)
                 | _ \<Rightarrow> Raised IndexError st3 [])))"

text \<open>
  Lines 114 to 117 evict the entry of a connection whose response is done; then the
  entry, when there is one, decides between the two branches.
\<close>

definition evict :: "state \<Rightarrow> sock \<Rightarrow> state" where
  "evict st sock =
     (case clients st sock of
        None \<Rightarrow> st
      | Some (request, response) \<Rightarrow>
          if r_done (responses st response)
          then st\<lparr>clients := (clients st)(sock := None)\<rparr> else st)"

definition read :: "env \<Rightarrow> state \<Rightarrow> sock \<Rightarrow> string \<Rightarrow> result" where
  "read env st sock data =
     (case clients (evict st sock) sock of
        Some (request, response) \<Rightarrow> read_body (evict st sock) request response data
      | None \<Rightarrow> read_new env (evict st sock) sock data)"

text \<open>The \<open>disconnect\<close> handler drops the connection's entry.\<close>

definition disconnect :: "state \<Rightarrow> sock \<Rightarrow> state" where
  "disconnect st sock = st\<lparr>clients := (clients st)(sock := None)\<rparr>"


subsection \<open>\<open>stream\<close> and \<open>response\<close>\<close>

text \<open>
  \<open>body.next()\<close>: an iterator yields its next element, or is exhausted
  (\<open>StopIteration\<close>, which both callers turn into \<open>data = None\<close>); a value that is
  no iterator has no \<open>next\<close>.
\<close>

fun body_next :: "pyvalue \<Rightarrow> error + string option \<times> pyvalue" where
  "body_next (VIter [] k) = Inr (None, VIter [] k)"
| "body_next (VIter (x # xs) k) = Inr (Some x, VIter xs k)"
| "body_next v = Inl AttributeError"

text \<open>\<open>body.close()\<close>: the iterator yields nothing afterwards; the call is counted.\<close>

fun body_close :: "pyvalue \<Rightarrow> error + pyvalue" where
  "body_close (VIter xs k) = Inr (VIter [] (Suc k))"
| "body_close v = Inl AttributeError"

definition stream :: "state \<Rightarrow> ref \<Rightarrow> string option \<Rightarrow> result" where
  "stream st rs data0 =
     (case data0 of
        Some (c # cs) \<Rightarrow>
          (let data = (if r_chunked (responses st rs)
                       then hex2 (length (c # cs)) @ CRLF @ (c # cs) @ CRLF
                       else c # cs);
               pushed = [Write (r_sock (responses st rs)) data]
           in if truthy (r_body (responses st rs)) \<and> \<not> r_done (responses st rs) then
                (case body_next (r_body (responses st rs)) of
                   Inl e \<Rightarrow> Raised e st pushed
                 | Inr (nxt, body) \<Rightarrow>
                     Done (upd_response rs (\<lambda>r. r\<lparr>r_body := body\<rparr>) st)
                       (pushed @ [Stream rs nxt]))
              else Done st pushed)
      | _ \<Rightarrow>
          (case (if truthy (r_body (responses st rs))
                 then body_close (r_body (responses st rs))
                 else Inr (r_body (responses st rs))) of
             Inl e \<Rightarrow> Raised e st []
           | Inr body \<Rightarrow>
               Done (upd_response rs (\<lambda>r. r\<lparr>r_body := body, r_done := True\<rparr>) st)
                 ((if r_chunked (responses st rs)
                   then [Write (r_sock (responses st rs)) (''0'' @ CRLF @ CRLF)] else [])
                  @ (if r_close (responses st rs)
                     then [Close (r_sock (responses st rs))] else []))))"

definition response :: "env \<Rightarrow> state \<Rightarrow> ref \<Rightarrow> result" where
  "response env st rs =
     (let pushed = map (Write (r_sock (responses st rs))) (response_output env (responses st rs))
      in if r_stream (responses st rs) \<and> truthy (r_body (responses st rs)) then
           (case body_next (r_body (responses st rs)) of
              Inl e \<Rightarrow> Raised e st pushed
            | Inr (nxt, body) \<Rightarrow>
                Done (upd_response rs (\<lambda>r. r\<lparr>r_body := body\<rparr>) st) (pushed @ [Stream rs nxt]))
         else
           Done (upd_response rs (\<lambda>r. r\<lparr>r_done := True\<rparr>) st)
             (pushed
              @ (if r_chunked (responses st rs) \<and> \<not> r_stream (responses st rs)
                 then [Write (r_sock (responses st rs)) (''0'' @ CRLF @ CRLF)] else [])
              @ (if r_close (responses st rs) then [Close (r_sock (responses st rs))] else [])))"

subsection \<open>Errors and dispatch outcomes\<close>

text \<open>
  The default \<open>httperror\<close> handler pushes the error's response and returns \<open>None\<close>.
\<close>

definition httperror :: "httperror \<Rightarrow> state \<Rightarrow> pyvalue \<times> state \<times> event list" where
  "httperror error st = (VNone, st, [Response (e_response error)])"

text \<open>
  \<open>_handleError\<close>: \<open>send\<close> runs the handlers of \<open>httperror\<close> at once and gives their
  return value; what they pushed comes before what \<open>_handleError\<close> pushes.
\<close>

definition handleError :: "env \<Rightarrow> state \<Rightarrow> httperror \<Rightarrow> result" where
  "handleError env st error =
     (case send_httperror env error st of
        (retval, st1, pushed) \<Rightarrow>
          if truthy retval then
            (case retval of
               VStr s \<Rightarrow>
                 Done (upd_response (e_response error) (\<lambda>r. r\<lparr>r_body := VStr s\<rparr>) st1)
                   (pushed @ [Response (e_response error)])
             | VError e \<Rightarrow> Done st1 (pushed @ [Response (e_response e)])
             | _ \<Rightarrow> Done st1 pushed)
          else Done st1 pushed)"

text \<open>
  \<open>request_success_or_filtered(evt, handler, retval)\<close>: \<open>evt.args[:2]\<close> is the
  request and the response of the \<open>Request\<close> event.
\<close>

definition request_success_or_filtered :: "env \<Rightarrow> state \<Rightarrow> ref \<times> ref \<Rightarrow> pyvalue \<Rightarrow> result" where
  "request_success_or_filtered env st evt retval =
     (if truthy retval then
        (case evt of
           (rq, rs) \<Rightarrow>
             (let st1 = upd_request rq (\<lambda>q. q\<lparr>q_handled := True\<rparr>) st
              in case retval of
                   VError e \<Rightarrow> handleError env st1 e
                 | VResponse r \<Rightarrow> Done st1 [Response r]
                 | VBool b \<Rightarrow> Done st1 []
                 | v \<Rightarrow> Done (upd_response rs (\<lambda>r. r\<lparr>r_body := v\<rparr>) st1) [Response rs]))
      else Done st [])"


section \<open>Delivering events\<close>

text \<open>
  The transport delivers the chunks of one connection to \<open>read\<close> in order; an
  exception ends the run. The events of the run are those of its reads, in order.
\<close>

fun reads :: "env \<Rightarrow> state \<Rightarrow> sock \<Rightarrow> string list \<Rightarrow> result" where
  "reads env st sock [] = Done st []"
| "reads env st sock (d # ds) =
     (case read env st sock d of
        Raised e st1 pushed \<Rightarrow> Raised e st1 pushed
      | Done st1 pushed \<Rightarrow>
          (case reads env st1 sock ds of
             Raised e st2 pushed2 \<Rightarrow> Raised e st2 (pushed @ pushed2)
           | Done st2 pushed2 \<Rightarrow> Done st2 (pushed @ pushed2)))"

text \<open>
  A \<open>Stream\<close> event that \<open>stream\<close> pushes comes back to \<open>stream\<close>. \<open>pump\<close>
  follows a response's \<open>Stream\<close> events to the end and gives the other events (the
  writes and the close) in the order they were pushed. Each step either takes an element
  from the body or finds it exhausted, so the pumping ends.
\<close>

definition pump_measure :: "state \<times> ref \<times> string option \<Rightarrow> nat" where
  "pump_measure x =
     (case x of
        (st, rs, data) \<Rightarrow>
          (case r_body (responses st rs) of VIter xs k \<Rightarrow> 2 * length xs | _ \<Rightarrow> 0)
          + (case data of Some (c # cs) \<Rightarrow> 1 | _ \<Rightarrow> 0))"

function pump :: "state \<Rightarrow> ref \<Rightarrow> string option \<Rightarrow> result" where
  "pump st rs data =
     (case stream st rs data of
        Raised e st1 pushed \<Rightarrow> Raised e st1 pushed
      | Done st1 pushed \<Rightarrow>
          (case pushed of
             [w, Stream rs1 nxt] \<Rightarrow>
               (case pump st1 rs1 nxt of
                  Raised e st2 pushed2 \<Rightarrow> Raised e st2 (w # pushed2)
                | Done st2 pushed2 \<Rightarrow> Done st2 (w # pushed2))
           | _ \<Rightarrow> Done st1 pushed))"
  by pat_completeness auto


section \<open>A concrete environment\<close>

text \<open>
  The theorems below hold for every environment. To run the handlers on concrete
  requests, this section fixes one: Python 2's \<open>urlparse\<close> on the request targets
  that start with a slash (no scheme), a header-block parser and a status table after
  the spec, a server that speaks HTTP/1.1, and the component's own \<open>httperror\<close> as
  the only handler of that event.
\<close>

text \<open>\<open>url.split(c, 1)\<close> when \<open>c\<close> occurs in \<open>url\<close>.\<close>

definition split_once :: "char \<Rightarrow> string \<Rightarrow> string \<times> string" where
  "split_once c url = (takeWhile (\<lambda>x. x \<noteq> c) url, tl (dropWhile (\<lambda>x. x \<noteq> c) url))"

text \<open>\<open>_splitnetloc(url, 2)\<close>: the location ends at the first of \<open>/\<close>, \<open>?\<close>, \<open>#\<close>.\<close>

definition splitnetloc :: "string \<Rightarrow> string \<times> string" where
  "splitnetloc url =
     (takeWhile (\<lambda>x. x \<notin> set ''/?#'') (drop 2 url),
      dropWhile (\<lambda>x. x \<notin> set ''/?#'') (drop 2 url))"

text \<open>
  \<open>_splitparams(url)\<close>: the params start at the first \<open>;\<close> of the last path
  segment.
\<close>

definition splitparams :: "string \<Rightarrow> string \<times> string" where
  "splitparams url =
     (if CHR ''/'' \<in> set url then
        (let k = length url - Suc (length (takeWhile (\<lambda>x. x \<noteq> CHR ''/'') (rev url)));
             seg = drop k url
         in if CHR '';'' \<in> set seg
            then (take k url @ fst (split_once (CHR '';'') seg), snd (split_once (CHR '';'') seg))
            else (url, []))
      else split_once (CHR '';'') url)"

text \<open>
  \<open>urlparse(url)\<close> of Python 2's standard library, for a target with no scheme: the
  location after a leading \<open>//\<close>, then the fragment after the first \<open>#\<close>, the query
  after the first \<open>?\<close>, and the params of the last path segment.
\<close>

definition urlparse_py ::
  "string \<Rightarrow> string \<times> string \<times> string \<times> string \<times> string \<times> string" where
  "urlparse_py url0 =
     (let (netloc, url1) = (if take 2 url0 = ''//'' then splitnetloc url0 else ([], url0));
          (url2, fragment) = (if CHR ''#'' \<in> set url1 then split_once (CHR ''#'') url1
                              else (url1, []));
          (url3, query) = (if CHR ''?'' \<in> set url2 then split_once (CHR ''?'') url2
                           else (url2, []));
          (url4, params) = (if CHR '';'' \<in> set url3 then splitparams url3 else (url3, []))
      in ([], netloc, url4, params, query, fragment))"

text \<open>\<open>"\n".join(ls)\<close>.\<close>

fun join_lines :: "string list \<Rightarrow> string" where
  "join_lines [] = []"
| "join_lines [l] = l"
| "join_lines (l # ls) = l @ [LF] @ join_lines ls"

text \<open>
  Modelled from the spec: \<open>headers.parseHeaders\<close> is not under src/. The spec's header
  parser, "given buffered text, returns a header mapping and any body bytes already
  present in the same buffer": the lines up to the first empty one are the fields
  (name, colon, value), what follows the empty line is the body. A line with no colon
  and a block with no empty line raise \<open>ValueError\<close>.
\<close>

fun header_lines :: "string list \<Rightarrow> error + headers \<times> string" where
  "header_lines [] = Inl ValueError"
| "header_lines (l # ls) =
     (if strip l = [] then Inr ([], join_lines ls)
      else (case split_max (CHR '':'') 1 l of
              [k, v] \<Rightarrow>
                (case header_lines ls of
                   Inl e \<Rightarrow> Inl e
                 | Inr (h, body) \<Rightarrow> Inr ((strip k, strip v) # h, body))
            | _ \<Rightarrow> Inl ValueError))"

definition parseHeaders_py :: "string \<Rightarrow> error + headers \<times> string" where
  "parseHeaders_py data = header_lines (split_all LF data)"

text \<open>
  Modelled from the spec: \<open>constants.RESPONSES\<close> is not under src/. It is "a
  status-code table mapping numeric codes to short/long reason phrases"; these are the
  entries of the codes the component uses.
\<close>

definition RESPONSES_py :: "nat \<Rightarrow> (string \<times> string) option" where
  "RESPONSES_py code =
     (if code = 100 then Some (''Continue'', ''Request received, please continue'')
      else if code = 200 then Some (''OK'', ''Request fulfilled, document follows'')
      else if code = 400 then Some (''Bad Request'', ''Bad request syntax or unsupported method'')
      else if code = 404 then Some (''Not Found'', ''Nothing matches the given URI'')
      else if code = 413 then Some (''Request Entity Too Large'', ''Entity is too large.'')
      else if code = 500 then Some (''Internal Server Error'', ''Server got itself in trouble'')
      else if code = 505 then Some (''HTTP Version Not Supported'', ''Cannot fulfill request.'')
      else None)"

text \<open>
  Modelled from the spec: \<open>wrappers.Response.output\<close> is not under src/. The spec has
  the "status line: \<open>HTTP/<major>.<minor> <code> <reason>\<close>" and the header block
  written first; a body that is a string follows them.
\<close>

definition output_py :: "response \<Rightarrow> string list" where
  "output_py r =
     [r_protocol r @ '' '' @ r_status r @ CRLF
        @ concat (map (\<lambda>(k, v). k @ '': '' @ v @ CRLF) (r_headers r)) @ CRLF]
     @ (case r_body r of VStr (c # cs) \<Rightarrow> [c # cs] | _ \<Rightarrow> [])"

definition py_env :: env where
  "py_env =
     \<lparr>urlparse = urlparse_py, parseHeaders = parseHeaders_py, RESPONSES = RESPONSES_py,
      response_output = output_py, server_protocol = [1, 1],
      default_protocol = ''HTTP/1.1'', send_httperror = httperror\<rparr>"

text \<open>The component as \<open>__init__\<close> leaves it: no connection has an entry.\<close>

definition init_request :: request where
  "init_request =
     \<lparr>q_sock = 0, q_method = [], q_scheme = [], q_path = [], q_protocol = [],
      q_qs = [], q_server_protocol = [], q_headers = [], q_body = StringIO,
      q_handled = False\<rparr>"

definition init_response :: response where
  "init_response =
     \<lparr>r_sock = 0, r_request = None, r_status = [], r_headers = [], r_body = VNone,
      r_protocol = [], r_chunked = False, r_stream = False, r_close = False,
      r_done = False\<rparr>"

definition init :: state where
  "init =
     \<lparr>clients = Map.empty, requests = (\<lambda>r. init_request),
      responses = (\<lambda>r. init_response), next_ref = 0\<rparr>"

text \<open>
  A connection in the middle of a request: connection 7 has sent the head of a
  \<open>POST\<close> that declares five bytes of body, and the first two of them.
\<close>

definition post_head :: string where
  "post_head = ''POST /a HTTP/1.1'' @ CRLF @ ''Content-Length: 5'' @ CRLF @ CRLF"

definition awaiting_body :: state where
  "awaiting_body =
     (case read py_env init 7 (post_head @ ''ab'') of
        Done st pushed \<Rightarrow> st
      | Raised e st pushed \<Rightarrow> st)"



definition get_fragment :: string where
  "get_fragment = ''GET /a#b HTTP/1.1'' @ CRLF @ CRLF"


definition post_expect :: string where
  "post_expect =
     ''POST /a HTTP/1.1'' @ CRLF @ ''Content-Length: 5'' @ CRLF
     @ ''Expect: 100-continue'' @ CRLF @ CRLF"

definition get_v12 :: string where
  "get_v12 = ''GET /a HTTP/1.2'' @ CRLF @ ''Host: x'' @ CRLF @ CRLF"

definition post_expect_capital :: string where
  "post_expect_capital =
     ''POST /a HTTP/1.1'' @ CRLF @ ''Content-Length: 5'' @ CRLF
     @ ''Expect: 100-Continue'' @ CRLF @ CRLF"

definition get_plain :: string where
  "get_plain = ''GET /a HTTP/1.1'' @ CRLF @ ''Host: x'' @ CRLF @ CRLF"

definition chunked_reply :: state where
  "chunked_reply =
     upd_response 1
       (\<lambda>r. r\<lparr>r_body := VIter [''abc'', ''de''] 0, r_chunked := True, r_stream := True\<rparr>)
       (case read py_env init 7 get_plain of
          Done st pushed \<Rightarrow> st
        | Raised e st pushed \<Rightarrow> st)"

definition custom_page :: state where
  "custom_page = snd (wrappers_Response py_env awaiting_body 7 (Some 0))"

definition no_line_feed :: string where
  "no_line_feed = ''GET / HTTP/1.1''"

definition two_fields :: string where
  "two_fields = ''GET /'' @ CRLF @ CRLF"

definition bad_version :: string where
  "bad_version = ''GET / HTTP/x.y'' @ CRLF @ CRLF"

section \<open>Notions used in the statements\<close>

text \<open>
  A connection that is collecting a body: its entry is the pair \<open>(rq, rs)\<close>, the
  response is not done, the request has the headers \<open>h\<close>, and its body buffer holds
  \<open>b\<close> with the position at the end (everything so far was appended).
\<close>

definition collecting :: "state \<Rightarrow> sock \<Rightarrow> ref \<Rightarrow> ref \<Rightarrow> headers \<Rightarrow> string \<Rightarrow> bool" where
  "collecting st sock rq rs h b =
     (clients st sock = Some (rq, rs) \<and> \<not> r_done (responses st rs)
      \<and> q_headers (requests st rq) = h
      \<and> q_body (requests st rq) = \<lparr>buf = b, pos = length b\<rparr>)"

text \<open>What a handler pushed and the store it left, whether it returned or raised.\<close>

fun pushed_of :: "result \<Rightarrow> event list" where
  "pushed_of (Done st pushed) = pushed"
| "pushed_of (Raised e st pushed) = pushed"

fun state_of :: "result \<Rightarrow> state" where
  "state_of (Done st pushed) = st"
| "state_of (Raised e st pushed) = st"


text \<open>
  Every reference in the connection table names an object that has been constructed.
\<close>

definition allocated :: "state \<Rightarrow> bool" where
  "allocated st =
     (\<forall>sock rq rs. clients st sock = Some (rq, rs) \<longrightarrow> rq < next_ref st \<and> rs < next_ref st)"

text \<open>
  The test of lines 183 to 190, on the request's own protocol version and its headers.
\<close>

definition wants_close :: "int list \<Rightarrow> headers \<Rightarrow> bool" where
  "wants_close protocol h =
     (if protocol = [1, 1] then lower (headers_get h ''Connection'' []) = ''close''
      else lower (headers_get h ''Connection'' []) \<noteq> ''keep-alive'')"

text \<open>
  A handler of \<open>httperror\<close> that pushes nothing and returns the given value, and two
  errors for it.
\<close>

definition hook_returning ::
  "pyvalue \<Rightarrow> httperror \<Rightarrow> state \<Rightarrow> pyvalue \<times> state \<times> event list" where
  "hook_returning v error st = (v, st, [])"

definition not_found :: httperror where
  "not_found = \<lparr>e_request = 0, e_response = 1, e_status = 404, e_message = None\<rparr>"

definition other_error :: httperror where
  "other_error = \<lparr>e_request = 2, e_response = 3, e_status = 500, e_message = None\<rparr>"

section \<open>Termination of the pumping\<close>

lemma body_next_measure:
  "body_next b = Inr (nxt, b') \<Longrightarrow>
   (case b' of VIter xs k \<Rightarrow> 2 * length xs | _ \<Rightarrow> 0)
     + (case nxt of Some (c # cs) \<Rightarrow> 1 | _ \<Rightarrow> 0)
   < (case b of VIter xs k \<Rightarrow> 2 * length xs | _ \<Rightarrow> 0) + 1"
  by (induction b rule: body_next.induct) (auto split: list.splits)

lemma stream_next:
  assumes "stream st rs data = Done st1 [w, Stream rs1 nxt]"
  shows "pump_measure (st1, rs1, nxt) < pump_measure (st, rs, data)"
proof (cases data)
  case None
  with assms show ?thesis
    by (auto simp: stream_def split: sum.splits if_splits)
next
  case (Some d)
  show ?thesis
  proof (cases d)
    case Nil
    with Some assms show ?thesis
      by (auto simp: stream_def split: sum.splits if_splits)
  next
    case (Cons c cs)
    with Some assms obtain body where
      n: "body_next (r_body (responses st rs)) = Inr (nxt, body)"
      and s: "st1 = upd_response rs (\<lambda>r. r\<lparr>r_body := body\<rparr>) st" and r: "rs1 = rs"
      by (auto simp: stream_def Let_def split: sum.splits if_splits)
    from body_next_measure [OF n] show ?thesis
      by (simp add: pump_measure_def s r Some Cons upd_response_def)
  qed
qed

termination pump
  apply (relation "measure pump_measure")
   apply simp
  apply (simp add: stream_next)
  done

declare pump.simps [simp del]


section \<open>How \<open>read\<close> chooses its branch\<close>

lemma read_in_flight:
  "clients st sock = Some (rq, rs) \<Longrightarrow> \<not> r_done (responses st rs) \<Longrightarrow>
   read env st sock data = read_body st rq rs data"
  by (simp add: read_def evict_def)

lemma read_done:
  "clients st sock = Some (rq, rs) \<Longrightarrow> r_done (responses st rs) \<Longrightarrow>
   read env st sock data = read_new env (disconnect st sock) sock data"
  by (simp add: read_def evict_def disconnect_def)

section \<open>\<open>simple\<close> and the connection table\<close>

lemma simple_props:
  "\<exists>st'. simple env st sock code message = Done st' [Response (next_ref st)]
     \<and> clients st' = clients st \<and> requests st' = requests st
     \<and> next_ref st' = Suc (next_ref st)
     \<and> (\<forall>r. r \<noteq> next_ref st \<longrightarrow> responses st' r = responses st r)
     \<and> r_request (responses st' (next_ref st)) = None
     \<and> r_sock (responses st' (next_ref st)) = sock
     \<and> r_status (responses st' (next_ref st))
         = str_nat code @ '' ''
           @ (if message \<noteq> [] then message else fst (responses_get env code))
     \<and> \<not> r_stream (responses st' (next_ref st))
     \<and> \<not> r_done (responses st' (next_ref st))"
  by (simp add: simple_def wrappers_Response_def upd_response_def Let_def split: prod.splits)

lemma simple_clients:
  "simple env (st\<lparr>clients := c\<rparr>) sock code message =
     (case simple env st sock code message of
        Done st' pushed \<Rightarrow> Done (st'\<lparr>clients := c\<rparr>) pushed
      | Raised e st' pushed \<Rightarrow> Raised e (st'\<lparr>clients := c\<rparr>) pushed)"
  by (simp add: simple_def wrappers_Response_def upd_response_def Let_def split: prod.splits)

lemma response_not_streamed:
  "\<not> r_stream (responses st r) \<Longrightarrow>
   \<exists>st' pushed. response env st r = Done st' pushed
     \<and> clients st' = clients st \<and> requests st' = requests st \<and> next_ref st' = next_ref st
     \<and> (\<forall>r'. r' \<noteq> r \<longrightarrow> responses st' r' = responses st r')
     \<and> r_done (responses st' r)"
  by (simp add: response_def upd_response_def Let_def)

lemma awaiting_body_entry:
  "clients awaiting_body 7 = Some (0, 1) \<and> next_ref awaiting_body = 2
   \<and> \<not> r_done (responses awaiting_body 1)
   \<and> q_headers (requests awaiting_body 0) = [(''Content-Length'', ''5'')]
   \<and> q_body (requests awaiting_body 0) = \<lparr>buf = ''ab'', pos = 2\<rparr>"
  by code_simp

text \<open>
  C10. \<open>simple\<close> builds a new response, with no request, and pushes it; it does not
  touch the connection table (and its result does not depend on the table) nor any
  request. The response of a pair in flight is another object, so it is unchanged, and
  it stays so when the new response is emitted by \<open>response\<close>: its \<open>done\<close> flag is
  still false, the entry is still there, and the next read on the connection continues
  the body of the request in flight.
\<close>

theorem simple_leaves_in_flight_pair:
  assumes alloc: "allocated st"
    and entry: "clients st sock = Some (rq, rs)"
    and pending: "\<not> r_done (responses st rs)"
  shows "\<exists>st1 st2 pushed.
     simple env st sock code message = Done st1 [Response (next_ref st)]
     \<and> r_request (responses st1 (next_ref st)) = None
     \<and> clients st1 = clients st \<and> requests st1 = requests st
     \<and> responses st1 rs = responses st rs
     \<and> simple env (st\<lparr>clients := c\<rparr>) sock code message
          = Done (st1\<lparr>clients := c\<rparr>) [Response (next_ref st)]
     \<and> response env st1 (next_ref st) = Done st2 pushed
     \<and> clients st2 sock = Some (rq, rs) \<and> requests st2 = requests st
     \<and> responses st2 rs = responses st rs \<and> \<not> r_done (responses st2 rs)
     \<and> read env st2 sock data = read_body st2 rq rs data"
proof -
  from simple_props [of env st sock code message] obtain st1 where
    s: "simple env st sock code message = Done st1 [Response (next_ref st)]"
    and c1: "clients st1 = clients st" and q1: "requests st1 = requests st"
    and o1: "\<forall>r. r \<noteq> next_ref st \<longrightarrow> responses st1 r = responses st r"
    and n1: "r_request (responses st1 (next_ref st)) = None"
    and ns: "\<not> r_stream (responses st1 (next_ref st))"
    by blast
  from response_not_streamed [OF ns, of env] obtain st2 pushed where
    r: "response env st1 (next_ref st) = Done st2 pushed"
    and c2: "clients st2 = clients st1" and q2: "requests st2 = requests st1"
    and o2: "\<forall>r'. r' \<noteq> next_ref st \<longrightarrow> responses st2 r' = responses st1 r'"
    by blast
  from alloc entry have "rs < next_ref st" by (auto simp: allocated_def)
  then have ne: "rs \<noteq> next_ref st" by simp
  have r1: "responses st1 rs = responses st rs" using o1 ne by simp
  have r2: "responses st2 rs = responses st rs" using o2 ne r1 by simp
  have e: "clients st2 sock = Some (rq, rs)" using c2 c1 entry by simp
  have d: "\<not> r_done (responses st2 rs)" using r2 pending by simp
  have f: "simple env (st\<lparr>clients := c\<rparr>) sock code message
          = Done (st1\<lparr>clients := c\<rparr>) [Response (next_ref st)]"
    using s by (simp add: simple_clients)
  show ?thesis
    using s n1 c1 q1 r1 f r e q2 r2 d read_in_flight [OF e d] by simp
qed

section \<open>Dispatch outcomes\<close>

text \<open>
  C9. A success or filtered outcome whose return value is a boolean that is not empty
  (that is, \<open>True\<close>) marks the request handled and does nothing else: no event is
  pushed, and no response (so no response body) and no table entry changes.
\<close>

theorem boolean_result_no_action:
  "request_success_or_filtered env st (rq, rs) (VBool True)
     = Done (upd_request rq (\<lambda>q. q\<lparr>q_handled := True\<rparr>) st) []
   \<and> q_handled (requests (upd_request rq (\<lambda>q. q\<lparr>q_handled := True\<rparr>) st) rq)
   \<and> responses (upd_request rq (\<lambda>q. q\<lparr>q_handled := True\<rparr>) st) = responses st
   \<and> clients (upd_request rq (\<lambda>q. q\<lparr>q_handled := True\<rparr>) st) = clients st"
  by (simp add: request_success_or_filtered_def upd_request_def)


section \<open>The error adapter\<close>

text \<open>
  C8, as the code has it. \<open>_handleError\<close> delivers the error to the handlers of
  \<open>httperror\<close>. When they return a string that is not empty, it becomes the body of
  the error's response and that response is pushed. When they return an \<open>HTTPError\<close>,
  the response of that error is pushed. When they return a \<open>Response\<close> or nothing,
  \<open>_handleError\<close> pushes nothing of its own. With the component's own \<open>httperror\<close>
  as the handler, which pushes the error's response and returns nothing, exactly that
  response is pushed and the store is unchanged.
\<close>

theorem handleError_outcomes:
  "(send_httperror env error st = (VStr (c # cs), st1, pushed) \<longrightarrow>
      handleError env st error
        = Done (upd_response (e_response error) (\<lambda>r. r\<lparr>r_body := VStr (c # cs)\<rparr>) st1)
            (pushed @ [Response (e_response error)]))
   \<and> (send_httperror env error st = (VError e, st1, pushed) \<longrightarrow>
      handleError env st error = Done st1 (pushed @ [Response (e_response e)]))
   \<and> (send_httperror env error st = (VResponse r, st1, pushed) \<longrightarrow>
      handleError env st error = Done st1 pushed)
   \<and> (send_httperror env error st = (VNone, st1, pushed) \<longrightarrow>
      handleError env st error = Done st1 pushed)
   \<and> (send_httperror env = httperror \<longrightarrow>
      handleError env st error = Done st [Response (e_response error)])"
  by (simp add: handleError_def httperror_def)

text \<open>The five cases, each on a handler that returns the value in question.\<close>

theorem handleError_outcomes_witness:
  "handleError (py_env\<lparr>send_httperror := hook_returning (VStr ''gone'')\<rparr>) awaiting_body not_found
     = Done (upd_response 1 (\<lambda>r. r\<lparr>r_body := VStr ''gone''\<rparr>) awaiting_body) [Response 1]
   \<and> handleError (py_env\<lparr>send_httperror := hook_returning (VError other_error)\<rparr>) awaiting_body not_found
     = Done awaiting_body [Response 3]
   \<and> handleError (py_env\<lparr>send_httperror := hook_returning (VResponse 5)\<rparr>) awaiting_body not_found
     = Done awaiting_body []
   \<and> handleError (py_env\<lparr>send_httperror := hook_returning VNone\<rparr>) awaiting_body not_found
     = Done awaiting_body []
   \<and> handleError py_env awaiting_body not_found = Done awaiting_body [Response 1]"
  using
    handleError_outcomes [of "py_env\<lparr>send_httperror := hook_returning (VStr ''gone'')\<rparr>"
      not_found awaiting_body "CHR ''g''" "''one''" awaiting_body "[]"]
    handleError_outcomes [of "py_env\<lparr>send_httperror := hook_returning (VError other_error)\<rparr>"
      not_found awaiting_body _ _ awaiting_body "[]" other_error]
    handleError_outcomes [of "py_env\<lparr>send_httperror := hook_returning (VResponse 5)\<rparr>"
      not_found awaiting_body _ _ awaiting_body "[]" _ 5]
    handleError_outcomes [of "py_env\<lparr>send_httperror := hook_returning VNone\<rparr>"
      not_found awaiting_body _ _ awaiting_body "[]"]
    handleError_outcomes [of py_env not_found awaiting_body]
  by (simp add: hook_returning_def py_env_def not_found_def other_error_def)

section \<open>Streaming a chunked response\<close>

lemma hex2_small: "hex2 (Suc (Suc (Suc 0))) = ''3''" "hex2 (Suc (Suc 0)) = ''2''"
  by code_simp+

text \<open>
  C6. A chunked streaming response whose body yields \<open>abc\<close>, then \<open>de\<close>, then ends:
  \<open>response\<close> writes the head and takes the first element; the three \<open>stream\<close>
  steps write \<open>3\r\nabc\r\n\<close>, \<open>2\r\nde\r\n\<close> and \<open>0\r\n\r\n\<close> in this order (and
  the close, when the response asks for one). The body has not been closed after the
  first two steps; the third, on the end of the stream, closes it once and sets
  \<open>done\<close>.
\<close>

theorem chunked_stream_frames:
  assumes b: "r_body (responses st rs) = VIter [''abc'', ''de''] 0"
    and c: "r_chunked (responses st rs)" and s: "r_stream (responses st rs)"
    and d: "\<not> r_done (responses st rs)"
  shows "\<exists>st1 st2 st3 st4.
     response env st rs
       = Done st1 (map (Write (r_sock (responses st rs))) (response_output env (responses st rs))
                   @ [Stream rs (Some ''abc'')])
     \<and> stream st1 rs (Some ''abc'')
         = Done st2 [Write (r_sock (responses st rs)) (''3'' @ CRLF @ ''abc'' @ CRLF),
                     Stream rs (Some ''de'')]
     \<and> r_body (responses st2 rs) = VIter [] 0 \<and> \<not> r_done (responses st2 rs)
     \<and> stream st2 rs (Some ''de'')
         = Done st3 [Write (r_sock (responses st rs)) (''2'' @ CRLF @ ''de'' @ CRLF),
                     Stream rs None]
     \<and> r_body (responses st3 rs) = VIter [] 0 \<and> \<not> r_done (responses st3 rs)
     \<and> stream st3 rs None
         = Done st4 (Write (r_sock (responses st rs)) (''0'' @ CRLF @ CRLF)
                     # (if r_close (responses st rs) then [Close (r_sock (responses st rs))] else []))
     \<and> r_body (responses st4 rs) = VIter [] 1 \<and> r_done (responses st4 rs)
     \<and> pump st1 rs (Some ''abc'')
         = Done st4 ([Write (r_sock (responses st rs)) (''3'' @ CRLF @ ''abc'' @ CRLF),
                      Write (r_sock (responses st rs)) (''2'' @ CRLF @ ''de'' @ CRLF),
                      Write (r_sock (responses st rs)) (''0'' @ CRLF @ CRLF)]
                     @ (if r_close (responses st rs) then [Close (r_sock (responses st rs))] else []))"
proof -
  define st1 where "st1 = upd_response rs (\<lambda>r. r\<lparr>r_body := VIter [''de''] 0\<rparr>) st"
  define st2 where "st2 = upd_response rs (\<lambda>r. r\<lparr>r_body := VIter [] 0\<rparr>) st1"
  define st3 where "st3 = upd_response rs (\<lambda>r. r\<lparr>r_body := VIter [] 0\<rparr>) st2"
  define st4 where "st4 = upd_response rs (\<lambda>r. r\<lparr>r_body := VIter [] 1, r_done := True\<rparr>) st3"
  have r0: "response env st rs
       = Done st1 (map (Write (r_sock (responses st rs))) (response_output env (responses st rs))
                   @ [Stream rs (Some ''abc'')])"
    using b s by (simp add: response_def st1_def)
  have p1: "r_body (responses st1 rs) = VIter [''de''] 0" "r_chunked (responses st1 rs)"
    "\<not> r_done (responses st1 rs)" "r_sock (responses st1 rs) = r_sock (responses st rs)"
    "r_close (responses st1 rs) = r_close (responses st rs)"
    using c d by (simp_all add: st1_def upd_response_def)
  have r1: "stream st1 rs (Some ''abc'')
         = Done st2 [Write (r_sock (responses st rs)) (''3'' @ CRLF @ ''abc'' @ CRLF),
                     Stream rs (Some ''de'')]"
    using p1 by (simp add: stream_def st2_def hex2_small)
  have p2: "r_body (responses st2 rs) = VIter [] 0" "r_chunked (responses st2 rs)"
    "\<not> r_done (responses st2 rs)" "r_sock (responses st2 rs) = r_sock (responses st rs)"
    "r_close (responses st2 rs) = r_close (responses st rs)"
    using p1 by (simp_all add: st2_def upd_response_def)
  have r2: "stream st2 rs (Some ''de'')
         = Done st3 [Write (r_sock (responses st rs)) (''2'' @ CRLF @ ''de'' @ CRLF),
                     Stream rs None]"
    using p2 by (simp add: stream_def st3_def hex2_small)
  have p3: "r_body (responses st3 rs) = VIter [] 0" "r_chunked (responses st3 rs)"
    "\<not> r_done (responses st3 rs)" "r_sock (responses st3 rs) = r_sock (responses st rs)"
    "r_close (responses st3 rs) = r_close (responses st rs)"
    using p2 by (simp_all add: st3_def upd_response_def)
  have r3: "stream st3 rs None
         = Done st4 (Write (r_sock (responses st rs)) (''0'' @ CRLF @ CRLF)
                     # (if r_close (responses st rs) then [Close (r_sock (responses st rs))] else []))"
    using p3 by (simp add: stream_def st4_def)
  have p4: "r_body (responses st4 rs) = VIter [] 1" "r_done (responses st4 rs)"
    by (simp_all add: st4_def upd_response_def)
  have q3: "pump st3 rs None = Done st4 (Write (r_sock (responses st rs)) (''0'' @ CRLF @ CRLF)
                     # (if r_close (responses st rs) then [Close (r_sock (responses st rs))] else []))"
    by (subst pump.simps) (simp add: r3)
  have q2: "pump st2 rs (Some ''de'') = Done st4 (Write (r_sock (responses st rs)) (''2'' @ CRLF @ ''de'' @ CRLF) # Write (r_sock (responses st rs)) (''0'' @ CRLF @ CRLF)
                     # (if r_close (responses st rs) then [Close (r_sock (responses st rs))] else []))"
    by (subst pump.simps) (simp add: r2 q3)
  have q1: "pump st1 rs (Some ''abc'') = Done st4 (Write (r_sock (responses st rs)) (''3'' @ CRLF @ ''abc'' @ CRLF) # Write (r_sock (responses st rs)) (''2'' @ CRLF @ ''de'' @ CRLF) # Write (r_sock (responses st rs)) (''0'' @ CRLF @ CRLF)
                     # (if r_close (responses st rs) then [Close (r_sock (responses st rs))] else []))"
    by (subst pump.simps) (simp add: r1 q2)
  show ?thesis
    using r0 r1 p2 r2 p3 r3 p4 q1 by (intro exI [of _ st1] exI [of _ st2] exI [of _ st3] exI [of _ st4]) simp
qed

section \<open>Reading a request\<close>

lemma read_fresh:
  "clients (evict st sock) sock = None \<Longrightarrow>
   read env st sock data = read_new env (evict st sock) sock data"
  by (simp add: read_def)

lemma evict_next_ref: "next_ref (evict st sock) = next_ref st"
  by (simp add: evict_def split: option.splits prod.splits)

lemma read_new_headers:
  assumes "request_line env data
             = Inr (method, (scheme, location, path, params, qs, []), [m, n], data1)"
    and "server_protocol env = [m, k]"
  shows "\<exists>st'. read_new env st sock data
           = read_headers env st' sock (next_ref st) (Suc (next_ref st)) data1
     \<and> clients st' = (clients st)(sock \<mapsto> (next_ref st, Suc (next_ref st)))
     \<and> next_ref st' = Suc (Suc (next_ref st))
     \<and> \<not> r_done (responses st' (Suc (next_ref st)))
     \<and> \<not> r_close (responses st' (Suc (next_ref st)))
     \<and> r_protocol (responses st' (Suc (next_ref st)))
         = ''HTTP/'' @ str_int m @ ''.'' @ str_int (min n k)
     \<and> q_protocol (requests st' (next_ref st)) = [m, n]
     \<and> q_body (requests st' (next_ref st)) = StringIO"
  using assms
  by (auto simp: read_new_def wrappers_Request_def wrappers_Response_def
      upd_response_def first_def Let_def format_protocol_def tuple_min_def min_def)

lemma read_complete_props:
  "\<exists>st'. read_complete st rq rs = Done st' [Request rq rs]
     \<and> clients st' = clients st \<and> next_ref st' = next_ref st
     \<and> q_body (requests st' rq) = (q_body (requests st rq))\<lparr>pos := 0\<rparr>
     \<and> q_headers (requests st' rq) = q_headers (requests st rq)
     \<and> q_protocol (requests st' rq) = q_protocol (requests st rq)
     \<and> r_done (responses st' rs) = r_done (responses st rs)
     \<and> r_protocol (responses st' rs) = r_protocol (responses st rs)
     \<and> r_close (responses st' rs)
         = (r_close (responses st rs)
            \<or> wants_close (q_protocol (requests st rq)) (q_headers (requests st rq)))"
  by (simp add: read_complete_def upd_response_def upd_request_def seek_def Let_def wants_close_def)

lemma read_headers_received:
  assumes "parseHeaders env data1 = Inr (h, b)"
    and "q_body (requests st rq) = StringIO"
    and "clients st sock = Some (rq, rs)" and "\<not> r_done (responses st rs)"
  shows "\<exists>st1. collecting st1 sock rq rs h b \<and> next_ref st1 = next_ref st
     \<and> responses st1 = responses st
     \<and> q_protocol (requests st1 rq) = q_protocol (requests st rq)
     \<and> read_headers env st sock rq rs data1 =
         (if headers_get h ''Expect'' [] = ''100-continue'' then simple env st1 sock 100 []
          else (case py_int (headers_get h ''Content-Length'' ''0'') of
                  None \<Rightarrow> Raised ValueError st1 []
                | Some contentLength \<Rightarrow>
                    if int (length b) = contentLength then read_complete st1 rq rs
                    else Done st1 []))"
  using assms
  by (intro exI [of _ "upd_request rq
          (\<lambda>q. q\<lparr>q_headers := h, q_body := buf_write (q_body q) b\<rparr>) st"])
    (simp add: read_headers_def collecting_def upd_request_def buf_write_def StringIO_def
      tell_def Let_def split: option.splits)

lemma read_body_received:
  assumes "collecting st sock rq rs h b"
  shows "\<exists>st1. collecting st1 sock rq rs h (b @ d) \<and> next_ref st1 = next_ref st
     \<and> responses st1 = responses st
     \<and> q_protocol (requests st1 rq) = q_protocol (requests st rq)
     \<and> read env st sock d =
         (case py_int (headers_get h ''Content-Length'' ''0'') of
            None \<Rightarrow> Raised ValueError st1 []
          | Some contentLength \<Rightarrow>
              if int (length b + length d) = contentLength then read_complete st1 rq rs
              else Done st1 [])"
  using assms
  by (intro exI [of _ "upd_request rq (\<lambda>q. q\<lparr>q_body := buf_write (q_body q) d\<rparr>) st"])
    (simp add: read_def evict_def read_body_def collecting_def upd_request_def buf_write_def
      tell_def Let_def split: option.splits)

lemma reads_append:
  "reads env st sock (xs @ ys) =
     (case reads env st sock xs of
        Raised e st1 p \<Rightarrow> Raised e st1 p
      | Done st1 p \<Rightarrow>
          (case reads env st1 sock ys of
             Raised e st2 p2 \<Rightarrow> Raised e st2 (p @ p2)
           | Done st2 p2 \<Rightarrow> Done st2 (p @ p2)))"
  by (induction xs arbitrary: st) (auto split: result.splits)

lemma reads_partial:
  assumes "collecting st sock rq rs h b"
    and "py_int (headers_get h ''Content-Length'' ''0'') = Some (int L)"
    and "length b + length (concat ds) < L"
  shows "\<exists>st'. reads env st sock ds = Done st' []
     \<and> collecting st' sock rq rs h (b @ concat ds)
     \<and> responses st' = responses st \<and> next_ref st' = next_ref st
     \<and> q_protocol (requests st' rq) = q_protocol (requests st rq)"
  using assms
proof (induction ds arbitrary: st b)
  case Nil
  then show ?case by simp
next
  case (Cons d ds)
  from read_body_received [OF Cons.prems(1), of d env] obtain st1 where
    c1: "collecting st1 sock rq rs h (b @ d)" and n1: "next_ref st1 = next_ref st"
    and r1: "responses st1 = responses st"
    and p1: "q_protocol (requests st1 rq) = q_protocol (requests st rq)"
    and rd: "read env st sock d =
         (case py_int (headers_get h ''Content-Length'' ''0'') of
            None \<Rightarrow> Raised ValueError st1 []
          | Some contentLength \<Rightarrow>
              if int (length b + length d) = contentLength then read_complete st1 rq rs
              else Done st1 [])"
    by blast
  from Cons.prems(3) have ne: "length b + length d \<noteq> L" by simp
  have rd': "read env st sock d = Done st1 []"
    using rd Cons.prems(2) ne by simp
  from Cons.prems(3) have lt: "length (b @ d) + length (concat ds) < L" by simp
  from Cons.IH [OF c1 Cons.prems(2) lt] obtain st' where
    "reads env st1 sock ds = Done st' []" "collecting st' sock rq rs h ((b @ d) @ concat ds)"
    "responses st' = responses st1" "next_ref st' = next_ref st1"
    "q_protocol (requests st' rq) = q_protocol (requests st1 rq)"
    by blast
  then show ?case using rd' n1 r1 p1 by simp
qed

lemma reads_last:
  assumes "collecting st sock rq rs h b"
    and "py_int (headers_get h ''Content-Length'' ''0'') = Some (int L)"
    and "length b + length d = L"
  shows "\<exists>st'. read env st sock d = Done st' [Request rq rs]
     \<and> clients st' sock = Some (rq, rs)
     \<and> q_body (requests st' rq) = \<lparr>buf = b @ d, pos = 0\<rparr>
     \<and> q_headers (requests st' rq) = h
     \<and> r_done (responses st' rs) = False
     \<and> r_close (responses st' rs)
         = (r_close (responses st rs) \<or> wants_close (q_protocol (requests st rq)) h)"
proof -
  from read_body_received [OF assms(1), of d env] obtain st1 where
    c1: "collecting st1 sock rq rs h (b @ d)"
    and r1: "responses st1 = responses st"
    and p1: "q_protocol (requests st1 rq) = q_protocol (requests st rq)"
    and rd: "read env st sock d =
         (case py_int (headers_get h ''Content-Length'' ''0'') of
            None \<Rightarrow> Raised ValueError st1 []
          | Some contentLength \<Rightarrow>
              if int (length b + length d) = contentLength then read_complete st1 rq rs
              else Done st1 [])"
    by blast
  have rd': "read env st sock d = read_complete st1 rq rs"
    using rd assms(2,3) by simp
  from read_complete_props [of st1 rq rs] obtain st' where
    "read_complete st1 rq rs = Done st' [Request rq rs]" "clients st' = clients st1"
    "q_body (requests st' rq) = (q_body (requests st1 rq))\<lparr>pos := 0\<rparr>"
    "q_headers (requests st' rq) = q_headers (requests st1 rq)"
    "r_done (responses st' rs) = r_done (responses st1 rs)"
    "r_close (responses st' rs)
         = (r_close (responses st1 rs)
            \<or> wants_close (q_protocol (requests st1 rq)) (q_headers (requests st1 rq)))"
    by blast
  then show ?thesis
    using rd' c1 r1 p1 by (auto simp: collecting_def)
qed

lemma reads_complete:
  assumes "collecting st sock rq rs h b"
    and "py_int (headers_get h ''Content-Length'' ''0'') = Some (int L)"
    and "ds \<noteq> []" and "[] \<notin> set ds"
    and "length b + length (concat ds) = L"
  shows "\<exists>st'. reads env st sock ds = Done st' [Request rq rs]
     \<and> clients st' sock = Some (rq, rs)
     \<and> q_body (requests st' rq) = \<lparr>buf = b @ concat ds, pos = 0\<rparr>
     \<and> q_headers (requests st' rq) = h
     \<and> r_done (responses st' rs) = False
     \<and> r_close (responses st' rs)
         = (r_close (responses st rs) \<or> wants_close (q_protocol (requests st rq)) h)"
proof -
  from assms(3) have ds: "ds = butlast ds @ [last ds]" by simp
  from assms(3,4) have "last ds \<noteq> []" by (metis last_in_set)
  then have pos: "0 < length (last ds)" by simp
  have cc: "concat ds = concat (butlast ds) @ last ds"
    by (subst ds) simp
  have len: "length (concat ds) = length (concat (butlast ds)) + length (last ds)"
    by (subst cc) simp
  have lt: "length b + length (concat (butlast ds)) < L"
    using assms(5) pos len by linarith
  from reads_partial [OF assms(1,2) lt, of env] obtain st1 where
    a: "reads env st sock (butlast ds) = Done st1 []"
    and c1: "collecting st1 sock rq rs h (b @ concat (butlast ds))"
    and r1: "responses st1 = responses st"
    and p1: "q_protocol (requests st1 rq) = q_protocol (requests st rq)"
    by blast
  have "length (b @ concat (butlast ds)) + length (last ds) = L"
    using assms(5) cc by simp
  from reads_last [OF c1 assms(2) this, of env] obtain st' where
    "read env st1 sock (last ds) = Done st' [Request rq rs]"
    "clients st' sock = Some (rq, rs)"
    "q_body (requests st' rq) = \<lparr>buf = (b @ concat (butlast ds)) @ last ds, pos = 0\<rparr>"
    "q_headers (requests st' rq) = h"
    "r_done (responses st' rs) = False"
    "r_close (responses st' rs)
         = (r_close (responses st1 rs) \<or> wants_close (q_protocol (requests st1 rq)) h)"
    by blast
  moreover have "reads env st sock ds = reads env st sock (butlast ds @ [last ds])"
    using ds by simp
  ultimately show ?thesis
    using a r1 p1 cc by (simp add: reads_append)
qed

lemma first_read:
  assumes fresh: "clients (evict st sock) sock = None"
    and line: "request_line env data
                 = Inr (method, (scheme, location, path, params, qs, []), [m, n], data1)"
    and srv: "server_protocol env = [m, k]"
    and hdr: "parseHeaders env data1 = Inr (h, b)"
  shows "\<exists>st1. collecting st1 sock (next_ref st) (Suc (next_ref st)) h b
     \<and> next_ref st1 = Suc (Suc (next_ref st))
     \<and> \<not> r_close (responses st1 (Suc (next_ref st)))
     \<and> r_protocol (responses st1 (Suc (next_ref st)))
         = ''HTTP/'' @ str_int m @ ''.'' @ str_int (min n k)
     \<and> q_protocol (requests st1 (next_ref st)) = [m, n]
     \<and> read env st sock data =
         (if headers_get h ''Expect'' [] = ''100-continue'' then simple env st1 sock 100 []
          else (case py_int (headers_get h ''Content-Length'' ''0'') of
                  None \<Rightarrow> Raised ValueError st1 []
                | Some contentLength \<Rightarrow>
                    if int (length b) = contentLength
                    then read_complete st1 (next_ref st) (Suc (next_ref st))
                    else Done st1 []))"
proof -
  let ?rq = "next_ref st" and ?rs = "Suc (next_ref st)"
  from read_new_headers [OF line srv, of "evict st sock" sock] obtain st0 where
    a: "read_new env (evict st sock) sock data = read_headers env st0 sock ?rq ?rs data1"
    and c0: "clients st0 = (clients (evict st sock))(sock \<mapsto> (?rq, ?rs))"
    and n0: "next_ref st0 = Suc (Suc ?rq)"
    and d0: "\<not> r_done (responses st0 ?rs)" and cl0: "\<not> r_close (responses st0 ?rs)"
    and p0: "r_protocol (responses st0 ?rs) = ''HTTP/'' @ str_int m @ ''.'' @ str_int (min n k)"
    and q0: "q_protocol (requests st0 ?rq) = [m, n]"
    and b0: "q_body (requests st0 ?rq) = StringIO"
    by (auto simp: evict_next_ref)
  from c0 have e0: "clients st0 sock = Some (?rq, ?rs)" by simp
  from read_headers_received [OF hdr b0 e0 d0] obtain st1 where
    "collecting st1 sock ?rq ?rs h b" "next_ref st1 = next_ref st0"
    "responses st1 = responses st0"
    "q_protocol (requests st1 ?rq) = q_protocol (requests st0 ?rq)"
    "read_headers env st0 sock ?rq ?rs data1 =
         (if headers_get h ''Expect'' [] = ''100-continue'' then simple env st1 sock 100 []
          else (case py_int (headers_get h ''Content-Length'' ''0'') of
                  None \<Rightarrow> Raised ValueError st1 []
                | Some contentLength \<Rightarrow>
                    if int (length b) = contentLength then read_complete st1 ?rq ?rs
                    else Done st1 []))"
    by blast
  then show ?thesis
    using a n0 cl0 p0 q0 read_fresh [OF fresh, of env data]
    by (intro exI [of _ st1]) simp
qed

lemma read_complete_outcome:
  "pushed_of (read_complete st rq rs) = [Request rq rs]
   \<and> clients (state_of (read_complete st rq rs)) = clients st
   \<and> next_ref (state_of (read_complete st rq rs)) = next_ref st"
  using read_complete_props [of st rq rs] by auto

lemma simple_outcome:
  "pushed_of (simple env st sock code message) = [Response (next_ref st)]
   \<and> clients (state_of (simple env st sock code message)) = clients st
   \<and> next_ref (state_of (simple env st sock code message)) = Suc (next_ref st)"
  using simple_props [of env st sock code message] by auto

lemma read_body_outcome:
  "(pushed_of (read_body st rq rs data) = [] \<or> pushed_of (read_body st rq rs data) = [Request rq rs])
   \<and> clients (state_of (read_body st rq rs data)) = clients st
   \<and> next_ref (state_of (read_body st rq rs data)) = next_ref st"
  by (simp add: read_body_def Let_def read_complete_outcome upd_request_def split: option.splits)

lemma read_headers_outcome:
  "(pushed_of (read_headers env st sock rq rs data) = []
    \<or> pushed_of (read_headers env st sock rq rs data) = [Response (next_ref st)]
    \<or> pushed_of (read_headers env st sock rq rs data) = [Request rq rs])
   \<and> clients (state_of (read_headers env st sock rq rs data)) = clients st
   \<and> next_ref st \<le> next_ref (state_of (read_headers env st sock rq rs data))"
  by (simp add: read_headers_def Let_def read_complete_outcome simple_outcome upd_request_def
      split: option.splits sum.splits prod.splits)

lemma errors_HTTPError_outcome:
  "e_status (fst (errors_HTTPError env st rq rs code msg)) = code
   \<and> e_request (fst (errors_HTTPError env st rq rs code msg)) = rq
   \<and> e_response (fst (errors_HTTPError env st rq rs code msg)) = rs
   \<and> clients (snd (errors_HTTPError env st rq rs code msg)) = clients st
   \<and> next_ref (snd (errors_HTTPError env st rq rs code msg)) = next_ref st"
  by (simp add: errors_HTTPError_def upd_response_def)

lemma registered_outcome:
  "clients ((snd (wrappers_Response env (snd (wrappers_Request env st sock m s p v q)) sock
              (Some (next_ref st))))
      \<lparr>clients := (clients (snd (wrappers_Response env
            (snd (wrappers_Request env st sock m s p v q)) sock (Some (next_ref st)))))
          (sock \<mapsto> (next_ref st, Suc (next_ref st)))\<rparr>)
     = (clients st)(sock \<mapsto> (next_ref st, Suc (next_ref st)))
   \<and> next_ref ((snd (wrappers_Response env (snd (wrappers_Request env st sock m s p v q)) sock
              (Some (next_ref st))))
      \<lparr>clients := (clients (snd (wrappers_Response env
            (snd (wrappers_Request env st sock m s p v q)) sock (Some (next_ref st)))))
          (sock \<mapsto> (next_ref st, Suc (next_ref st)))\<rparr>) = Suc (Suc (next_ref st))
   \<and> q_protocol (requests ((snd (wrappers_Response env (snd (wrappers_Request env st sock m s p v q)) sock
              (Some (next_ref st))))
      \<lparr>clients := (clients (snd (wrappers_Response env
            (snd (wrappers_Request env st sock m s p v q)) sock (Some (next_ref st)))))
          (sock \<mapsto> (next_ref st, Suc (next_ref st)))\<rparr>) (next_ref st)) = v
   \<and> q_server_protocol (requests ((snd (wrappers_Response env (snd (wrappers_Request env st sock m s p v q)) sock
              (Some (next_ref st))))
      \<lparr>clients := (clients (snd (wrappers_Response env
            (snd (wrappers_Request env st sock m s p v q)) sock (Some (next_ref st)))))
          (sock \<mapsto> (next_ref st, Suc (next_ref st)))\<rparr>) (next_ref st)) = server_protocol env"
  by (simp add: wrappers_Request_def wrappers_Response_def Let_def)

lemma read_new_outcome:
  "next_ref st \<le> next_ref (state_of (read_new env st sock data))
   \<and> (clients (state_of (read_new env st sock data)) = clients st
      \<or> clients (state_of (read_new env st sock data))
          = (clients st)(sock \<mapsto> (next_ref st, Suc (next_ref st))))
   \<and> (\<forall>q r. Request q r \<in> set (pushed_of (read_new env st sock data))
         \<longrightarrow> q = next_ref st \<and> r = Suc (next_ref st))
   \<and> (\<forall>e. HTTPError e \<in> set (pushed_of (read_new env st sock data)) \<longrightarrow>
         (\<exists>m s l p ps q f v d.
            request_line env data = Inr (m, (s, l, p, ps, q, f), v, d)
            \<and> e_status e = (if f \<noteq> [] then 400 else 505)
            \<and> (f \<noteq> [] \<or> (\<exists>m1 v' m2 w. v = m1 # v' \<and> server_protocol env = m2 # w
                                  \<and> m1 \<noteq> m2))))"
proof (cases "request_line env data")
  case (Inl e)
  then show ?thesis by (simp add: read_new_def)
next
  case (Inr x)
  obtain m s l p ps q f v d where x: "x = (m, (s, l, p, ps, q, f), v, d)"
    by (cases x) auto
  note line = Inr [unfolded x]
  note defs = read_new_def wrappers_Request_def wrappers_Response_def errors_HTTPError_def
    upd_response_def Let_def
  let ?rq = "next_ref st" and ?rs = "Suc (next_ref st)"
  show ?thesis
  proof (cases "f \<noteq> []")
    case True
    then show ?thesis using line by (simp add: defs)
  next
    case False
    then have f: "f = []" by simp
    show ?thesis
    proof (cases v)
      case Nil
      then show ?thesis using line f by (simp add: defs first_def)
    next
      case (Cons m1 v')
      note v = Cons
      show ?thesis
      proof (cases "server_protocol env")
        case Nil
        then show ?thesis using line f v by (simp add: defs first_def)
      next
        case (Cons m2 w)
        note sp = Cons
        show ?thesis
        proof (cases "m1 = m2")
          case False
          then show ?thesis using line f v sp by (simp add: defs first_def)
        next
          case True
          show ?thesis
          proof (cases "format_protocol (tuple_min v (server_protocol env))")
            case None
            then show ?thesis using line f v sp True by (simp add: defs first_def)
          next
            case (Some pr)
            let ?st5 = "upd_response ?rs (\<lambda>r. r\<lparr>r_protocol := pr\<rparr>)
              ((snd (wrappers_Response env (snd (wrappers_Request env st sock m s p v q)) sock
                  (Some (next_ref st))))
               \<lparr>clients := (clients (snd (wrappers_Response env
                    (snd (wrappers_Request env st sock m s p v q)) sock (Some (next_ref st)))))
                  (sock \<mapsto> (next_ref st, Suc (next_ref st)))\<rparr>)"
            have c5: "clients ?st5 = (clients st)(sock \<mapsto> (?rq, ?rs))"
              and n5: "next_ref ?st5 = Suc (Suc (next_ref st))"
              by (simp_all add: defs)
            have "read_new env st sock data = read_headers env ?st5 sock ?rq ?rs d"
              using line f v sp True Some by (simp add: defs first_def)
            then show ?thesis
              using read_headers_outcome [of env ?st5 sock ?rq ?rs d] c5 n5 by auto
          qed
        qed
      qed
    qed
  qed
qed

lemma evict_outcome:
  "next_ref (evict st sock) = next_ref st
   \<and> (clients (evict st sock) sock = None \<or> clients (evict st sock) sock = clients st sock)
   \<and> (\<forall>rq rs. clients (evict st sock) sock = Some (rq, rs) \<longrightarrow> \<not> r_done (responses st rs))"
  by (auto simp: evict_def split: option.splits)

lemma read_outcome:
  "next_ref st \<le> next_ref (state_of (read env st sock data))
   \<and> (clients (state_of (read env st sock data)) sock = clients (evict st sock) sock
      \<or> clients (state_of (read env st sock data)) sock
          = Some (next_ref st, Suc (next_ref st)))
   \<and> (\<forall>q r. Request q r \<in> set (pushed_of (read env st sock data))
         \<longrightarrow> clients (evict st sock) sock = Some (q, r) \<or> q = next_ref st)
   \<and> (\<forall>e. HTTPError e \<in> set (pushed_of (read env st sock data)) \<longrightarrow>
         clients (evict st sock) sock = None
         \<and> (\<exists>m s l p ps q f v d.
            request_line env data = Inr (m, (s, l, p, ps, q, f), v, d)
            \<and> e_status e = (if f \<noteq> [] then 400 else 505)
            \<and> (f \<noteq> [] \<or> (\<exists>m1 v' m2 w. v = m1 # v' \<and> server_protocol env = m2 # w
                                  \<and> m1 \<noteq> m2))))"
proof (cases "clients (evict st sock) sock")
  case None
  then have "read env st sock data = read_new env (evict st sock) sock data"
    by (simp add: read_def)
  then show ?thesis
    using read_new_outcome [of "evict st sock" env sock data] None evict_outcome [of st sock]
    by auto
next
  case (Some a)
  obtain rq rs where a: "a = (rq, rs)" by (cases a)
  with Some have "read env st sock data = read_body (evict st sock) rq rs data"
    by (simp add: read_def)
  then show ?thesis
    using read_body_outcome [of "evict st sock" rq rs data] Some a evict_outcome [of st sock]
    by auto
qed






lemma read_new_fragment:
  assumes "request_line env data
             = Inr (method, (scheme, location, path, params, qs, frag), version, data1)"
    and "frag \<noteq> []"
  shows "\<exists>st'. read_new env st sock data
           = Done st' [HTTPError \<lparr>e_request = next_ref st, e_response = Suc (next_ref st),
                        e_status = 400, e_message = None\<rparr>]
     \<and> clients st' = (clients st)(sock \<mapsto> (next_ref st, Suc (next_ref st)))
     \<and> \<not> r_done (responses st' (Suc (next_ref st)))
     \<and> q_protocol (requests st' (next_ref st)) = version
     \<and> q_server_protocol (requests st' (next_ref st)) = server_protocol env"
  using assms
  by (auto simp: read_new_def wrappers_Request_def wrappers_Response_def errors_HTTPError_def
      upd_response_def Let_def)







text \<open>
  C3, as the code has it. A target with a fragment makes \<open>read\<close> push exactly one
  event, an \<open>HTTPError\<close> of status 400, and stop. The pair of the rejected request has
  been registered before the check and stays in the table, its response not done: a
  read that comes now continues the body of the rejected request. Once the response is
  done, the next read drops the entry and starts a new request.
\<close>

theorem fragment_entry_registered:
  assumes fresh: "clients (evict st sock) sock = None"
    and line: "request_line env data
                 = Inr (method, (scheme, location, path, params, qs, frag), version, data1)"
    and frg: "frag \<noteq> []"
  shows "\<exists>st' e. read env st sock data = Done st' [HTTPError e]
     \<and> e_status e = 400
     \<and> clients st' sock = Some (e_request e, e_response e)
     \<and> \<not> r_done (responses st' (e_response e))
     \<and> (\<forall>d. read env st' sock d = read_body st' (e_request e) (e_response e) d)
     \<and> (\<forall>d. read env (upd_response (e_response e) (\<lambda>r. r\<lparr>r_done := True\<rparr>) st') sock d
           = read_new env
               (disconnect (upd_response (e_response e) (\<lambda>r. r\<lparr>r_done := True\<rparr>) st') sock)
               sock d)"
proof -
  let ?e = "\<lparr>e_request = next_ref (evict st sock), e_response = Suc (next_ref (evict st sock)),
             e_status = 400, e_message = None\<rparr>"
  from read_new_fragment [OF line frg, of "evict st sock" sock] obtain st' where
    r: "read_new env (evict st sock) sock data = Done st' [HTTPError ?e]"
    and c: "clients st' = (clients (evict st sock))(sock \<mapsto> (e_request ?e, e_response ?e))"
    and d: "\<not> r_done (responses st' (e_response ?e))"
    by auto
  from c have c': "clients st' sock = Some (e_request ?e, e_response ?e)" by simp
  have a: "read env st' sock d = read_body st' (e_request ?e) (e_response ?e) d" for d
    by (rule read_in_flight [OF c' d])
  have b: "read env (upd_response (e_response ?e) (\<lambda>r. r\<lparr>r_done := True\<rparr>) st') sock d
         = read_new env
             (disconnect (upd_response (e_response ?e) (\<lambda>r. r\<lparr>r_done := True\<rparr>) st') sock)
             sock d" for d
    by (rule read_done [of _ _ "e_request ?e" "e_response ?e"])
       (use c' in \<open>simp_all add: upd_response_def\<close>)
  show ?thesis
    using r c' d a b read_fresh [OF fresh, of env data]
    by (intro exI [of _ st'] exI [of _ ?e]) simp
qed

lemma request_line_no_line_feed: "LF \<notin> set data \<Longrightarrow> request_line env data = Inl ValueError"
  by (simp add: request_line_def numeral_eq_Suc)

text \<open>
  C5, as the code has it. On a connection with no entry, a chunk with no line feed, a
  request line with fewer than three fields and a version that is not made of integers
  each raise \<open>ValueError\<close> out of \<open>read\<close>, after no event and with the table as it
  was. A target with a fragment gets the \<open>HTTPError\<close> of status 400, and nothing
  else does: whenever \<open>read\<close> pushes an \<open>HTTPError\<close> of status 400, the request
  line has parsed and its target has a fragment.
\<close>

theorem request_line_errors:
  assumes fresh: "clients (evict st sock) sock = None"
  shows "(LF \<notin> set data \<longrightarrow> read env st sock data = Raised ValueError (evict st sock) [])
   \<and> (split_max LF 1 data = [l, data1] \<and> length (split_max (CHR '' '') 2 (strip l)) < 3
        \<longrightarrow> read env st sock data = Raised ValueError (evict st sock) [])
   \<and> (split_max LF 1 data = [l, data1] \<and> split_max (CHR '' '') 2 (strip l) = [verb, path, protocol]
        \<and> map_int (split_all (CHR ''.'') (drop 5 protocol)) = None
        \<longrightarrow> read env st sock data = Raised ValueError (evict st sock) [])
   \<and> (request_line env data
         = Inr (verb, (scheme, location, path', params, qs, frag), version, data1)
        \<and> frag \<noteq> []
        \<longrightarrow> (\<exists>st' e. read env st sock data = Done st' [HTTPError e] \<and> e_status e = 400))
   \<and> (HTTPError e \<in> set (pushed_of (read env st sock data)) \<and> e_status e = 400
        \<longrightarrow> (\<exists>verb' scheme' location' path'' params' qs' frag' version' data2.
              request_line env data
                = Inr (verb', (scheme', location', path'', params', qs', frag'), version', data2)
              \<and> frag' \<noteq> []))"
proof (intro conjI impI)
  assume "LF \<notin> set data"
  then show "read env st sock data = Raised ValueError (evict st sock) []"
    using read_fresh [OF fresh, of env data]
    by (simp add: read_new_def request_line_no_line_feed)
next
  assume a: "split_max LF 1 data = [l, data1] \<and> length (split_max (CHR '' '') 2 (strip l)) < 3"
  then have "request_line env data = Inl ValueError"
    by (auto simp: request_line_def split: list.splits)
  then show "read env st sock data = Raised ValueError (evict st sock) []"
    using read_fresh [OF fresh, of env data] by (simp add: read_new_def)
next
  assume "split_max LF 1 data = [l, data1] \<and> split_max (CHR '' '') 2 (strip l) = [verb, path, protocol]
        \<and> map_int (split_all (CHR ''.'') (drop 5 protocol)) = None"
  then have "request_line env data = Inl ValueError"
    by (simp add: request_line_def)
  then show "read env st sock data = Raised ValueError (evict st sock) []"
    using read_fresh [OF fresh, of env data] by (simp add: read_new_def)
next
  assume a: "request_line env data
         = Inr (verb, (scheme, location, path', params, qs, frag), version, data1)
        \<and> frag \<noteq> []"
  from read_new_fragment [of env data verb scheme location path' params qs frag version data1
      "evict st sock" sock] a
  show "\<exists>st' e. read env st sock data = Done st' [HTTPError e] \<and> e_status e = 400"
    using read_fresh [OF fresh, of env data] by auto
next
  assume a: "HTTPError e \<in> set (pushed_of (read env st sock data)) \<and> e_status e = 400"
  with read_outcome [of st env sock data] obtain m s l' p ps q f v d where
    "request_line env data = Inr (m, (s, l', p, ps, q, f), v, d)"
    "e_status e = (if f \<noteq> [] then 400 else 505)"
    by blast
  with a have "request_line env data = Inr (m, (s, l', p, ps, q, f), v, d) \<and> f \<noteq> []"
    by (auto split: if_splits)
  then show "\<exists>verb' scheme' location' path'' params' qs' frag' version' data2.
              request_line env data
                = Inr (verb', (scheme', location', path'', params', qs', frag'), version', data2)
              \<and> frag' \<noteq> []"
    by blast
qed

lemma str_nat_100: "str_nat 100 = ''100''"
  by code_simp

lemma simple_continue:
  assumes "RESPONSES env 100 = Some (''Continue'', long)"
  shows "\<exists>st'. simple env st sock 100 [] = Done st' [Response (next_ref st)]
     \<and> clients st' = clients st \<and> requests st' = requests st
     \<and> (\<forall>r. r \<noteq> next_ref st \<longrightarrow> responses st' r = responses st r)
     \<and> r_request (responses st' (next_ref st)) = None
     \<and> r_sock (responses st' (next_ref st)) = sock
     \<and> r_status (responses st' (next_ref st)) = ''100 Continue''
     \<and> r_body (responses st' (next_ref st)) = VStr ''Continue''
     \<and> \<not> r_stream (responses st' (next_ref st))
     \<and> \<not> r_chunked (responses st' (next_ref st))
     \<and> \<not> r_close (responses st' (next_ref st))
     \<and> \<not> r_done (responses st' (next_ref st))"
  using assms
  by (simp add: simple_def wrappers_Response_def upd_response_def responses_get_def
      str_nat_100 Let_def)

lemma response_plain:
  assumes "\<not> r_stream (responses st r)" and "\<not> r_chunked (responses st r)"
    and "\<not> r_close (responses st r)"
  shows "\<exists>st'. response env st r
           = Done st' (map (Write (r_sock (responses st r)))
                         (response_output env (responses st r)))
     \<and> clients st' = clients st \<and> requests st' = requests st
     \<and> (\<forall>r'. r' \<noteq> r \<longrightarrow> responses st' r' = responses st r')
     \<and> r_done (responses st' r)"
  using assms by (simp add: response_def upd_response_def Let_def)

text \<open>
  C7. A request with \<open>Expect\<close> equal to \<open>100-continue\<close> and a body still to come:
  the first read pushes one event, a response with no request and the status
  \<open>100 Continue\<close>; \<open>response\<close> writes it out; and the deliveries that bring the body
  to the declared Content-Length end in the \<open>Request\<close> event of the same pair. The
  comparison is of the exact string: with any other value of \<open>Expect\<close> the first read
  pushes nothing.
\<close>

theorem expect_continue_then_dispatch:
  assumes fresh: "clients (evict st sock) sock = None"
    and line: "request_line env data
                 = Inr (method, (scheme, location, path, params, qs, []), [m, n], data1)"
    and srv: "server_protocol env = [m, k]"
    and hdr: "parseHeaders env data1 = Inr (h, b)"
    and tbl: "RESPONSES env 100 = Some (''Continue'', long)"
    and len: "py_int (headers_get h ''Content-Length'' ''0'') = Some (int L)"
    and pnd: "length b < L"
    and frg: "[] \<notin> set ds"
    and tot: "length b + length (concat ds) = L"
  shows "(headers_get h ''Expect'' [] = ''100-continue'' \<longrightarrow>
     (\<exists>st1 st2 st3 rq rs r100.
       read env st sock data = Done st1 [Response r100]
       \<and> r_status (responses st1 r100) = ''100 Continue''
       \<and> r_request (responses st1 r100) = None
       \<and> clients st1 sock = Some (rq, rs) \<and> r100 \<noteq> rs
       \<and> response env st1 r100
           = Done st2 (map (Write sock) (response_output env (responses st1 r100)))
       \<and> reads env st2 sock ds = Done st3 [Request rq rs]
       \<and> clients st3 sock = Some (rq, rs)
       \<and> q_headers (requests st3 rq) = h
       \<and> q_body (requests st3 rq) = \<lparr>buf = b @ concat ds, pos = 0\<rparr>))
   \<and> (headers_get h ''Expect'' [] \<noteq> ''100-continue'' \<longrightarrow>
     (\<exists>st1. read env st sock data = Done st1 []))"
proof (intro conjI impI)
  assume exp: "headers_get h ''Expect'' [] = ''100-continue''"
  let ?rq = "next_ref st" and ?rs = "Suc (next_ref st)" and ?r = "Suc (Suc (next_ref st))"
  from first_read [OF fresh line srv hdr] obtain st0 where
    c0: "collecting st0 sock ?rq ?rs h b" and n0: "next_ref st0 = ?r"
    and rd: "read env st sock data =
         (if headers_get h ''Expect'' [] = ''100-continue'' then simple env st0 sock 100 []
          else (case py_int (headers_get h ''Content-Length'' ''0'') of
                  None \<Rightarrow> Raised ValueError st0 []
                | Some contentLength \<Rightarrow>
                    if int (length b) = contentLength then read_complete st0 ?rq ?rs
                    else Done st0 []))"
    by blast
  from simple_continue [OF tbl, of st0 sock] n0 obtain st1 where
    s1: "simple env st0 sock 100 [] = Done st1 [Response ?r]"
    and c1: "clients st1 = clients st0" and q1: "requests st1 = requests st0"
    and o1: "\<forall>r. r \<noteq> ?r \<longrightarrow> responses st1 r = responses st0 r"
    and f1: "r_request (responses st1 ?r) = None" "r_sock (responses st1 ?r) = sock"
      "r_status (responses st1 ?r) = ''100 Continue''"
      "\<not> r_stream (responses st1 ?r)" "\<not> r_chunked (responses st1 ?r)"
      "\<not> r_close (responses st1 ?r)"
    by auto
  have rd1: "read env st sock data = Done st1 [Response ?r]"
    using rd exp s1 by simp
  from response_plain [OF f1(4,5,6), of env] f1(2) obtain st2 where
    s2: "response env st1 ?r = Done st2 (map (Write sock) (response_output env (responses st1 ?r)))"
    and c2: "clients st2 = clients st1" and q2: "requests st2 = requests st1"
    and o2: "\<forall>r'. r' \<noteq> ?r \<longrightarrow> responses st2 r' = responses st1 r'"
    by auto
  have e1: "clients st1 sock = Some (?rq, ?rs)"
    using c0 c1 by (simp add: collecting_def)
  have c2': "collecting st2 sock ?rq ?rs h b"
    using c0 c1 q1 o1 c2 q2 o2 by (simp add: collecting_def)
  from pnd tot have ne: "ds \<noteq> []" by auto
  from reads_complete [OF c2' len ne frg tot, of env] obtain st3 where
    "reads env st2 sock ds = Done st3 [Request ?rq ?rs]"
    "clients st3 sock = Some (?rq, ?rs)"
    "q_body (requests st3 ?rq) = \<lparr>buf = b @ concat ds, pos = 0\<rparr>"
    "q_headers (requests st3 ?rq) = h"
    by blast
  then show "\<exists>st1 st2 st3 rq rs r100.
       read env st sock data = Done st1 [Response r100]
       \<and> r_status (responses st1 r100) = ''100 Continue''
       \<and> r_request (responses st1 r100) = None
       \<and> clients st1 sock = Some (rq, rs) \<and> r100 \<noteq> rs
       \<and> response env st1 r100
           = Done st2 (map (Write sock) (response_output env (responses st1 r100)))
       \<and> reads env st2 sock ds = Done st3 [Request rq rs]
       \<and> clients st3 sock = Some (rq, rs)
       \<and> q_headers (requests st3 rq) = h
       \<and> q_body (requests st3 rq) = \<lparr>buf = b @ concat ds, pos = 0\<rparr>"
    using rd1 f1(1,3) e1 s2
    by (intro exI [of _ st1] exI [of _ st2] exI [of _ st3] exI [of _ ?rq] exI [of _ ?rs]
        exI [of _ ?r]) simp
next
  assume exp: "headers_get h ''Expect'' [] \<noteq> ''100-continue''"
  from first_read [OF fresh line srv hdr] obtain st0 where
    "read env st sock data =
         (if headers_get h ''Expect'' [] = ''100-continue'' then simple env st0 sock 100 []
          else (case py_int (headers_get h ''Content-Length'' ''0'') of
                  None \<Rightarrow> Raised ValueError st0 []
                | Some contentLength \<Rightarrow>
                    if int (length b) = contentLength
                    then read_complete st0 (next_ref st) (Suc (next_ref st))
                    else Done st0 []))"
    by blast
  then show "\<exists>st1. read env st sock data = Done st1 []"
    using exp len pnd by simp
qed

section \<open>The table holds constructed objects only\<close>

text \<open>
  \<open>read\<close> registers a pair only after it has constructed both objects, and nothing
  lowers \<open>next_ref\<close>: from the initial state on, every reference in the table is
  below \<open>next_ref\<close>.
\<close>

lemma allocated_init: "allocated init"
  by (simp add: allocated_def init_def)

lemma allocated_evict: "allocated st \<Longrightarrow> allocated (evict st sock)"
  by (auto simp: allocated_def evict_def split: option.splits if_splits)

lemma allocated_simple:
  "allocated st \<Longrightarrow> simple env st sock code message = Done st' pushed \<Longrightarrow> allocated st'"
  using simple_props [of env st sock code message]
  by (auto simp: allocated_def) (metis less_Suc_eq)+

lemma allocated_read_complete:
  "allocated st \<Longrightarrow> read_complete st rq rs = Done st' pushed \<Longrightarrow> allocated st'"
  using read_complete_props [of st rq rs] by (auto simp: allocated_def)

lemma allocated_read_body:
  "allocated st \<Longrightarrow> read_body st rq rs data = Done st' pushed \<Longrightarrow> allocated st'"
  by (auto simp: read_body_def Let_def split: option.splits if_splits
      dest!: allocated_read_complete [rotated])
     (auto simp: allocated_def upd_request_def)


lemma allocated_read_headers:
  assumes "allocated st" and "read_headers env st sock rq rs data = Done st' pushed"
  shows "allocated st'"
proof (cases "parseHeaders env data")
  case (Inl e)
  with assms(2) show ?thesis by (simp add: read_headers_def)
next
  case (Inr hb)
  obtain h b where hb: "hb = (h, b)" by (cases hb)
  let ?st1 = "upd_request rq (\<lambda>q. q\<lparr>q_headers := h, q_body := buf_write (q_body q) b\<rparr>) st"
  have a1: "allocated ?st1" using assms(1) by (simp add: allocated_def upd_request_def)
  from assms(2) Inr hb have
    "simple env ?st1 sock 100 [] = Done st' pushed
     \<or> Done ?st1 [] = Done st' pushed \<or> read_complete ?st1 rq rs = Done st' pushed"
    by (auto simp: read_headers_def Let_def split: if_splits option.splits)
  then show ?thesis
    using a1 allocated_simple allocated_read_complete by blast
qed

lemma allocated_register:
  assumes "allocated st"
  shows "allocated
     ((snd (wrappers_Response env (snd (wrappers_Request env st sock m s p v q)) sock
              (Some (next_ref st))))
      \<lparr>clients := (clients (snd (wrappers_Response env
            (snd (wrappers_Request env st sock m s p v q)) sock (Some (next_ref st)))))
          (sock \<mapsto> (next_ref st, Suc (next_ref st)))\<rparr>)"
  using assms
  by (auto simp: allocated_def wrappers_Request_def wrappers_Response_def Let_def)
     (metis less_Suc_eq)+

lemma fst_wrappers:
  "fst (wrappers_Request env st sock m s p v q) = next_ref st"
  "next_ref (snd (wrappers_Request env st sock m s p v q)) = Suc (next_ref st)"
  "fst (wrappers_Response env st sock r) = next_ref st"
  by (simp_all add: wrappers_Request_def wrappers_Response_def Let_def)

lemma allocated_upd_response: "allocated st \<Longrightarrow> allocated (upd_response r f st)"
  by (simp add: allocated_def upd_response_def)

lemma allocated_read_new:
  assumes "allocated st" and "read_new env st sock data = Done st' pushed"
  shows "allocated st'"
proof (cases "request_line env data")
  case (Inl e)
  with assms(2) show ?thesis by (simp add: read_new_def)
next
  case (Inr x)
  obtain m s l p ps q f v d where x: "x = (m, (s, l, p, ps, q, f), v, d)"
    by (cases x) auto
  let ?st3 = "(snd (wrappers_Response env (snd (wrappers_Request env st sock m s p v q)) sock
              (Some (next_ref st))))
      \<lparr>clients := (clients (snd (wrappers_Response env
            (snd (wrappers_Request env st sock m s p v q)) sock (Some (next_ref st)))))
          (sock \<mapsto> (next_ref st, Suc (next_ref st)))\<rparr>"
  have a3: "allocated ?st3" by (rule allocated_register [OF assms(1)])
  from assms(2) Inr x have
    "(\<exists>c. st' = snd (errors_HTTPError env ?st3 (next_ref st) (Suc (next_ref st)) c None))
     \<or> (\<exists>pr. read_headers env (upd_response (Suc (next_ref st)) (\<lambda>r. r\<lparr>r_protocol := pr\<rparr>) ?st3)
              sock (next_ref st) (Suc (next_ref st)) d = Done st' pushed)"
    by (auto simp: read_new_def Let_def case_prod_beta fst_wrappers
        split: if_splits option.splits)
  then show ?thesis
  proof
    assume "\<exists>c. st' = snd (errors_HTTPError env ?st3 (next_ref st) (Suc (next_ref st)) c None)"
    then show ?thesis
      using a3 by (auto simp: errors_HTTPError_def allocated_upd_response)
  next
    assume "\<exists>pr. read_headers env (upd_response (Suc (next_ref st)) (\<lambda>r. r\<lparr>r_protocol := pr\<rparr>) ?st3)
              sock (next_ref st) (Suc (next_ref st)) d = Done st' pushed"
    then show ?thesis
      using allocated_read_headers allocated_upd_response [OF a3] by blast
  qed
qed

lemma allocated_read:
  assumes "allocated st" and "read env st sock data = Done st' pushed"
  shows "allocated st'"
  using assms allocated_evict [OF assms(1), of sock]
  by (auto simp: read_def split: option.splits
      dest: allocated_read_body [rotated] allocated_read_new [rotated])

lemma allocated_reads:
  "allocated st \<Longrightarrow> reads env st sock ds = Done st' pushed \<Longrightarrow> allocated st'"
  by (induction ds arbitrary: st pushed)
     (auto split: result.splits dest: allocated_read [rotated])

section \<open>The handlers on concrete requests\<close>

lemma init_fresh: "clients (evict init 7) 7 = None"
  by (simp add: evict_def init_def)

lemma evict_init: "evict init 7 = init"
  by (simp add: evict_def init_def)



lemma line_get_fragment:
  "request_line py_env get_fragment = Inr (''GET'', ([], [], ''/a'', [], [], ''b''), [1, 1], CRLF)"
  by code_simp




text \<open>
  Against C3 as stated: after the 400 the table holds the pair of the rejected request,
  and the eviction of the next read leaves it there.
\<close>

theorem fragment_entry_counterexample:
  "(case read py_env init 7 get_fragment of
      Done st pushed \<Rightarrow>
        pushed = [HTTPError \<lparr>e_request = 0, e_response = 1, e_status = 400, e_message = None\<rparr>]
        \<and> clients st 7 = Some (0, 1) \<and> \<not> r_done (responses st 1)
        \<and> clients (evict st 7) 7 = Some (0, 1)
    | Raised e st pushed \<Rightarrow> False)"
  by (code_simp)

text \<open>
  Against C5 as stated: a request line of two fields raises \<open>ValueError\<close>; no event is
  pushed, so no response is emitted.
\<close>

theorem unparseable_request_line_counterexample:
  "(case read py_env init 7 (''GET /'' @ CRLF @ CRLF) of
      Done st pushed \<Rightarrow> False
    | Raised e st pushed \<Rightarrow> e = ValueError \<and> pushed = [] \<and> clients st 7 = None)"
  by code_simp

text \<open>
  C4 fails on the code: the test of line 183 is on the request's own version, not on
  the negotiated one. A client of version 1.2 on a server of version 1.1 gets the
  response protocol \<open>HTTP/1.1\<close> and, with no \<open>Connection\<close> header, \<open>close\<close> set;
  a client of version 1.1 on a server of version 1.0 gets \<open>HTTP/1.0\<close> and, with no
  \<open>Connection\<close> header, \<open>close\<close> not set.
\<close>

theorem persistence_follows_request_version:
  "(case read py_env init 7 get_v12 of
      Done st pushed \<Rightarrow>
        pushed = [Request 0 1] \<and> q_protocol (requests st 0) = [1, 2]
        \<and> q_server_protocol (requests st 0) = [1, 1]
        \<and> r_protocol (responses st 1) = ''HTTP/1.1''
        \<and> headers_get (q_headers (requests st 0)) ''Connection'' [] = []
        \<and> r_close (responses st 1)
    | Raised e st pushed \<Rightarrow> False)
   \<and> (case read (py_env\<lparr>server_protocol := [1, 0]\<rparr>) init 7 get_plain of
      Done st pushed \<Rightarrow>
        pushed = [Request 0 1] \<and> q_protocol (requests st 0) = [1, 1]
        \<and> q_server_protocol (requests st 0) = [1, 0]
        \<and> r_protocol (responses st 1) = ''HTTP/1.0''
        \<and> headers_get (q_headers (requests st 0)) ''Connection'' [] = []
        \<and> \<not> r_close (responses st 1)
    | Raised e st pushed \<Rightarrow> False)"
  by code_simp

lemma line_post_expect:
  "request_line py_env post_expect
     = Inr (''POST'', ([], [], ''/a'', [], [], []), [1, 1],
            ''Content-Length: 5'' @ CRLF @ ''Expect: 100-continue'' @ CRLF @ CRLF)"
  by code_simp

lemma headers_post_expect:
  "parseHeaders py_env (''Content-Length: 5'' @ CRLF @ ''Expect: 100-continue'' @ CRLF @ CRLF)
     = Inr ([(''Content-Length'', ''5''), (''Expect'', ''100-continue'')], [])"
  by code_simp

lemma content_length_5:
  "py_int (headers_get [(''Content-Length'', ''5'')] ''Content-Length'' ''0'') = Some (int 5)"
  "py_int (headers_get [(''Content-Length'', ''5''), (''Expect'', ''100-continue'')] ''Content-Length'' ''0'') = Some (int 5)"
  "headers_get [(''Content-Length'', ''5'')] ''Expect'' [] \<noteq> ''100-continue''"
  "headers_get [(''Content-Length'', ''5''), (''Expect'', ''100-continue'')] ''Expect'' [] = ''100-continue''"
  by code_simp+






lemma line_post_expect_capital:
  "request_line py_env post_expect_capital
     = Inr (''POST'', ([], [], ''/a'', [], [], []), [1, 1],
            ''Content-Length: 5'' @ CRLF @ ''Expect: 100-Continue'' @ CRLF @ CRLF)"
  by code_simp

lemma headers_post_expect_capital:
  "parseHeaders py_env (''Content-Length: 5'' @ CRLF @ ''Expect: 100-Continue'' @ CRLF @ CRLF)
     = Inr ([(''Content-Length'', ''5''), (''Expect'', ''100-Continue'')], [])"
  by code_simp

lemma content_length_5_capital:
  "py_int (headers_get [(''Content-Length'', ''5''), (''Expect'', ''100-Continue'')] ''Content-Length'' ''0'') = Some (int 5)"
  "headers_get [(''Content-Length'', ''5''), (''Expect'', ''100-Continue'')] ''Expect'' [] \<noteq> ''100-continue''"
  by code_simp+

lemma table_100: "RESPONSES py_env 100 = Some (''Continue'', ''Request received, please continue'')"
  by (simp add: py_env_def RESPONSES_py_def)

text \<open>
  The interim reply and the dispatch on connection 7, and no interim reply for
  \<open>Expect: 100-Continue\<close>.
\<close>

theorem expect_continue_then_dispatch_witness:
  "clients (evict init 7) 7 = None
   \<and> request_line py_env post_expect
       = Inr (''POST'', ([], [], ''/a'', [], [], []), [1, 1],
              ''Content-Length: 5'' @ CRLF @ ''Expect: 100-continue'' @ CRLF @ CRLF)
   \<and> (\<exists>st1 st2 st3 rq rs r100.
       read py_env init 7 post_expect = Done st1 [Response r100]
       \<and> r_status (responses st1 r100) = ''100 Continue''
       \<and> r_request (responses st1 r100) = None
       \<and> clients st1 7 = Some (rq, rs) \<and> r100 \<noteq> rs
       \<and> response py_env st1 r100
           = Done st2 (map (Write 7) (response_output py_env (responses st1 r100)))
       \<and> reads py_env st2 7 [''abc'', ''de''] = Done st3 [Request rq rs]
       \<and> clients st3 7 = Some (rq, rs)
       \<and> q_body (requests st3 rq) = \<lparr>buf = ''abcde'', pos = 0\<rparr>)
   \<and> (\<exists>st1. read py_env init 7 post_expect_capital = Done st1 [])"
proof -
  have srv: "server_protocol py_env = [1, 1]" by (simp add: py_env_def)
  have pnd: "length ([] :: string) < 5" by simp
  have frg: "[] \<notin> set [''abc'', ''de'']" by simp
  have tot: "length ([] :: string) + length (concat [''abc'', ''de'']) = 5" by simp
  from expect_continue_then_dispatch [OF init_fresh line_post_expect srv headers_post_expect
      table_100 content_length_5(2) pnd frg tot]
    expect_continue_then_dispatch [OF init_fresh line_post_expect_capital srv
      headers_post_expect_capital table_100 content_length_5_capital(1) pnd frg tot]
  show ?thesis
    using init_fresh line_post_expect content_length_5(4) content_length_5_capital(2)
    by auto
qed


text \<open>The fragment on connection 7.\<close>

theorem fragment_entry_registered_witness:
  "clients (evict init 7) 7 = None
   \<and> request_line py_env get_fragment
       = Inr (''GET'', ([], [], ''/a'', [], [], ''b''), [1, 1], CRLF)
   \<and> (\<exists>st' e. read py_env init 7 get_fragment = Done st' [HTTPError e]
     \<and> e_status e = 400
     \<and> clients st' 7 = Some (e_request e, e_response e)
     \<and> \<not> r_done (responses st' (e_response e))
     \<and> (\<forall>d. read py_env st' 7 d = read_body st' (e_request e) (e_response e) d)
     \<and> (\<forall>d. read py_env (upd_response (e_response e) (\<lambda>r. r\<lparr>r_done := True\<rparr>) st') 7 d
           = read_new py_env
               (disconnect (upd_response (e_response e) (\<lambda>r. r\<lparr>r_done := True\<rparr>) st') 7)
               7 d))"
proof -
  have frg: "''b'' \<noteq> []" by simp
  from fragment_entry_registered [OF init_fresh line_get_fragment frg]
  show ?thesis using init_fresh line_get_fragment by blast
qed

lemma chunked_reply_response:
  "r_body (responses chunked_reply 1) = VIter [''abc'', ''de''] 0 \<and> r_chunked (responses chunked_reply 1)
   \<and> r_stream (responses chunked_reply 1) \<and> \<not> r_done (responses chunked_reply 1)
   \<and> r_sock (responses chunked_reply 1) = 7 \<and> \<not> r_close (responses chunked_reply 1)"
  by code_simp

text \<open>
  Against C8 as stated: the handler returns a \<open>Response\<close> (number 2, another than the
  error's), and \<open>_handleError\<close> pushes nothing.
\<close>

theorem handleError_response_value_counterexample:
  "handleError (py_env\<lparr>send_httperror := hook_returning (VResponse 2)\<rparr>) custom_page not_found
     = Done custom_page []"
  by (simp add: handleError_def hook_returning_def)

text \<open>One chunk for each case.\<close>

lemma pushed_get_fragment:
  "pushed_of (read py_env init 7 get_fragment)
     = [HTTPError \<lparr>e_request = 0, e_response = 1, e_status = 400, e_message = None\<rparr>]"
  by code_simp

theorem request_line_errors_witness:
  "clients (evict init 7) 7 = None
   \<and> read py_env init 7 no_line_feed = Raised ValueError init []
   \<and> read py_env init 7 two_fields = Raised ValueError init []
   \<and> read py_env init 7 bad_version = Raised ValueError init []
   \<and> (\<exists>st' e. read py_env init 7 get_fragment = Done st' [HTTPError e] \<and> e_status e = 400)
   \<and> HTTPError \<lparr>e_request = 0, e_response = 1, e_status = 400, e_message = None\<rparr>
        \<in> set (pushed_of (read py_env init 7 get_fragment))
   \<and> (\<exists>verb' scheme' location' path'' params' qs' frag' version' data2.
          request_line py_env get_fragment
            = Inr (verb', (scheme', location', path'', params', qs', frag'), version', data2)
          \<and> frag' \<noteq> [])"
proof -
  have h1: "LF \<notin> set no_line_feed" by code_simp
  have h2: "split_max LF 1 two_fields = [''GET /'' @ [CR], CRLF]
     \<and> length (split_max (CHR '' '') 2 (strip (''GET /'' @ [CR]))) < 3"
    by code_simp
  have h3: "split_max LF 1 bad_version = [''GET / HTTP/x.y'' @ [CR], CRLF]
     \<and> split_max (CHR '' '') 2 (strip (''GET / HTTP/x.y'' @ [CR])) = [''GET'', ''/'', ''HTTP/x.y'']
     \<and> map_int (split_all (CHR ''.'') (drop 5 ''HTTP/x.y'')) = None"
    by code_simp
  have h4: "request_line py_env get_fragment
         = Inr (''GET'', ([], [], ''/a'', [], [], ''b''), [1, 1], CRLF) \<and> ''b'' \<noteq> []"
    using line_get_fragment by simp
  have h5: "HTTPError \<lparr>e_request = 0, e_response = 1, e_status = 400, e_message = None\<rparr>
        \<in> set (pushed_of (read py_env init 7 get_fragment))
     \<and> e_status \<lparr>e_request = 0, e_response = 1, e_status = 400, e_message = None\<rparr> = 400"
    by (simp add: pushed_get_fragment)
  from request_line_errors [OF init_fresh, where data = no_line_feed and env = py_env] h1
  have c1: "read py_env init 7 no_line_feed = Raised ValueError init []"
    by (simp add: evict_init)
  from request_line_errors [OF init_fresh, where data = two_fields and env = py_env
      and l = "''GET /'' @ [CR]" and ?data1.0 = CRLF] h2
  have c2: "read py_env init 7 two_fields = Raised ValueError init []"
    by (simp add: evict_init)
  from request_line_errors [OF init_fresh, where data = bad_version and env = py_env
      and l = "''GET / HTTP/x.y'' @ [CR]" and ?data1.0 = CRLF and verb = "''GET''"
      and path = "''/''" and protocol = "''HTTP/x.y''"] h3
  have c3: "read py_env init 7 bad_version = Raised ValueError init []"
    by (simp add: evict_init)
  from request_line_errors [OF init_fresh, where data = get_fragment and env = py_env
      and ?data1.0 = CRLF and verb = "''GET''" and scheme = "[]" and location = "[]"
      and path' = "''/a''" and params = "[]" and qs = "[]" and frag = "''b''"
      and version = "[1, 1]"] h4
  have c4: "\<exists>st' e. read py_env init 7 get_fragment = Done st' [HTTPError e] \<and> e_status e = 400"
    by blast
  have c5: "\<exists>verb' scheme' location' path'' params' qs' frag' version' data2.
          request_line py_env get_fragment
            = Inr (verb', (scheme', location', path'', params', qs', frag'), version', data2)
          \<and> frag' \<noteq> []"
    by (rule request_line_errors [OF init_fresh, where data = get_fragment and env = py_env
          and e = "\<lparr>e_request = 0, e_response = 1, e_status = 400, e_message = None\<rparr>",
          THEN conjunct2, THEN conjunct2, THEN conjunct2, THEN conjunct2, THEN mp, OF h5])
  show ?thesis using init_fresh c1 c2 c3 c4 c5 h5 by simp
qed

text \<open>The same on the response of connection 7.\<close>

theorem chunked_stream_frames_witness:
  "r_body (responses chunked_reply 1) = VIter [''abc'', ''de''] 0
   \<and> r_chunked (responses chunked_reply 1) \<and> r_stream (responses chunked_reply 1)
   \<and> \<not> r_done (responses chunked_reply 1)
   \<and> (\<exists>st1 st4.
       response py_env chunked_reply 1
         = Done st1 (map (Write 7) (response_output py_env (responses chunked_reply 1))
                     @ [Stream 1 (Some ''abc'')])
       \<and> pump st1 1 (Some ''abc'')
           = Done st4 [Write 7 (''3'' @ CRLF @ ''abc'' @ CRLF),
                       Write 7 (''2'' @ CRLF @ ''de'' @ CRLF),
                       Write 7 (''0'' @ CRLF @ CRLF)]
       \<and> r_body (responses st4 1) = VIter [] 1 \<and> r_done (responses st4 1))"
proof -
  have b: "r_body (responses chunked_reply 1) = VIter [''abc'', ''de''] 0"
    and c: "r_chunked (responses chunked_reply 1)" and s: "r_stream (responses chunked_reply 1)"
    and d: "\<not> r_done (responses chunked_reply 1)"
    and k: "r_sock (responses chunked_reply 1) = 7" and l: "\<not> r_close (responses chunked_reply 1)"
    using chunked_reply_response by simp_all
  from chunked_stream_frames [OF b c s d, of py_env]
  show ?thesis using b c s d k l by auto
qed


lemma awaiting_body_reached:
  "\<exists>pushed. read py_env init 7 (post_head @ ''ab'') = Done awaiting_body pushed"
proof -
  have "(case read py_env init 7 (post_head @ ''ab'') of
           Done st pushed \<Rightarrow> True | Raised e st pushed \<Rightarrow> False)"
    by code_simp
  then show ?thesis
    by (cases "read py_env init 7 (post_head @ ''ab'')") (simp_all add: awaiting_body_def)
qed

text \<open>The interim reply on the connection that is waiting for its body.\<close>

theorem simple_leaves_in_flight_pair_witness:
  "allocated awaiting_body \<and> clients awaiting_body 7 = Some (0, 1)
   \<and> \<not> r_done (responses awaiting_body 1)
   \<and> (\<exists>st1 st2 pushed.
     simple py_env awaiting_body 7 100 [] = Done st1 [Response (next_ref awaiting_body)]
     \<and> r_request (responses st1 (next_ref awaiting_body)) = None
     \<and> clients st1 = clients awaiting_body \<and> requests st1 = requests awaiting_body
     \<and> responses st1 1 = responses awaiting_body 1
     \<and> simple py_env (awaiting_body\<lparr>clients := Map.empty\<rparr>) 7 100 []
          = Done (st1\<lparr>clients := Map.empty\<rparr>) [Response (next_ref awaiting_body)]
     \<and> response py_env st1 (next_ref awaiting_body) = Done st2 pushed
     \<and> clients st2 7 = Some (0, 1) \<and> requests st2 = requests awaiting_body
     \<and> responses st2 1 = responses awaiting_body 1 \<and> \<not> r_done (responses st2 1)
     \<and> read py_env st2 7 ''cde'' = read_body st2 0 1 ''cde'')"
proof -
  have a: "allocated awaiting_body"
    using awaiting_body_reached allocated_read [OF allocated_init] by blast
  have b: "clients awaiting_body 7 = Some (0, 1)"
    and c: "\<not> r_done (responses awaiting_body 1)"
    using awaiting_body_entry by simp_all
  show ?thesis
    using a b c simple_leaves_in_flight_pair [OF a b c, of py_env 100 "[]" Map.empty "''cde''"]
    by simp
qed

end
